theory Spec2Isabelle
  imports Main "HOL-Library.Word"
begin

section \<open>JavaScript strings\<close>

text \<open>
  A JavaScript string is a sequence of UTF-16 code units; \<open>length\<close>, \<open>substring\<close>,
  \<open>startsWith\<close> and the regular expressions of the handler (none has the \<open>u\<close> flag) all
  count and compare code units. The bullet \<open>U+2022\<close> is the single code unit \<open>0x2022\<close>.
  ASCII literals of the source are written \<open>js ''...''\<close>.
\<close>

type_synonym code_unit = "16 word"
type_synonym jsstring = "code_unit list"

definition js :: "string \<Rightarrow> jsstring" where
  "js s = map of_char s"

definition ch :: "char \<Rightarrow> code_unit" where
  "ch c = of_char c"

definition bullet :: code_unit where
  "bullet = 0x2022"

text \<open>\<open>LineTerminator\<close> of ECMAScript: LF, CR, LS, PS. The regular expression \<open>.\<close> (without
  the \<open>s\<close> flag) matches every code unit but these.\<close>

definition is_line_terminator :: "code_unit \<Rightarrow> bool" where
  "is_line_terminator c = (c = 0x0A \<or> c = 0x0D \<or> c = 0x2028 \<or> c = 0x2029)"

text \<open>\<open>\s\<close> and \<open>String.prototype.trim\<close>: \<open>WhiteSpace\<close> (TAB, VT, FF, SP, NBSP, ZWNBSP and
  the category \<open>Zs\<close>) together with \<open>LineTerminator\<close>.\<close>

definition is_space :: "code_unit \<Rightarrow> bool" where
  "is_space c =
     (c = 0x09 \<or> c = 0x0A \<or> c = 0x0B \<or> c = 0x0C \<or> c = 0x0D \<or> c = 0x20 \<or> c = 0xA0 \<or>
      c = 0x1680 \<or> (0x2000 \<le> unat c \<and> unat c \<le> 0x200A) \<or> c = 0x2028 \<or> c = 0x2029 \<or>
      c = 0x202F \<or> c = 0x205F \<or> c = 0x3000 \<or> c = 0xFEFF)"

text \<open>\<open>\d\<close> is \<open>[0-9]\<close> and \<open>\w\<close> is \<open>[A-Za-z0-9_]\<close>.\<close>

definition is_digit :: "code_unit \<Rightarrow> bool" where
  "is_digit c = (0x30 \<le> unat c \<and> unat c \<le> 0x39)"

definition is_word_char :: "code_unit \<Rightarrow> bool" where
  "is_word_char c =
     ((0x41 \<le> unat c \<and> unat c \<le> 0x5A) \<or> (0x61 \<le> unat c \<and> unat c \<le> 0x7A) \<or>
      is_digit c \<or> c = 0x5F)"

text \<open>
  \<open>toLowerCase\<close>, code unit by code unit. The definition is the Unicode mapping on every
  code unit whose lower-case form contains a Basic Latin character: \<open>A\<close>..\<open>Z\<close>, the Kelvin
  sign \<open>U+212A\<close> (to \<open>k\<close>) and \<open>U+0130\<close> (to \<open>i\<close> followed by \<open>U+0307\<close>). Every other code
  unit is left as it is; JavaScript maps some of them to other code units outside Basic
  Latin, which no search of the handler can tell apart, since every phrase searched for
  in a lower-cased line is Basic Latin.
\<close>

definition lower_unit :: "code_unit \<Rightarrow> jsstring" where
  "lower_unit c =
     (if 0x41 \<le> unat c \<and> unat c \<le> 0x5A then [c + 0x20]
      else if c = 0x212A then [0x6B]
      else if c = 0x0130 then [0x69, 0x0307]
      else [c])"

definition toLowerCase :: "jsstring \<Rightarrow> jsstring" where
  "toLowerCase s = concat (map lower_unit s)"

definition startsWith :: "jsstring \<Rightarrow> jsstring \<Rightarrow> bool" where
  "startsWith s p = (take (length p) s = p)"

fun js_includes :: "jsstring \<Rightarrow> jsstring \<Rightarrow> bool" where
  "js_includes [] p = (p = [])"
| "js_includes (c # cs) p = (startsWith (c # cs) p \<or> js_includes cs p)"

definition trim :: "jsstring \<Rightarrow> jsstring" where
  "trim s = rev (dropWhile is_space (rev (dropWhile is_space s)))"

definition substring0 :: "nat \<Rightarrow> jsstring \<Rightarrow> jsstring" where
  \<comment> \<open>\<open>s.substring(0, n)\<close>\<close>
  "substring0 n s = take n s"

text \<open>\<open>text.split('\n')\<close>: the pieces between line feeds; never the empty array.\<close>

fun split_lines :: "jsstring \<Rightarrow> jsstring list" where
  "split_lines [] = [[]]"
| "split_lines (c # cs) =
     (if c = 0x0A then [] # split_lines cs
      else (case split_lines cs of l # ls \<Rightarrow> (c # l) # ls | [] \<Rightarrow> [[c]]))"

section \<open>Values parsed from JSON\<close>

text \<open>
  What \<open>req.json()\<close> can return. A number is kept as an integer: the handler does nothing
  with a number but test it for being zero. \<open>JObj\<close> lists the properties of the parsed
  object (keys distinct, as \<open>JSON.parse\<close> leaves them).
\<close>

datatype json =
    JNull
  | JBool bool
  | JNum int
  | JStr jsstring
  | JArr "json list"
  | JObj "(jsstring \<times> json) list"

fun truthy :: "json \<Rightarrow> bool" where
  "truthy JNull = False"
| "truthy (JBool b) = b"
| "truthy (JNum n) = (n \<noteq> 0)"
| "truthy (JStr s) = (s \<noteq> [])"
| "truthy (JArr _) = True"
| "truthy (JObj _) = True"

text \<open>
  Whether the conversion to a string, as a template literal does it, throws a
  \<open>TypeError\<close>. A parsed object is converted by the \<open>toString\<close> it inherits unless it has a
  property of that name of its own, which, coming from JSON, is not callable; then
  \<open>valueOf\<close> gives no primitive either and the conversion throws. An array joins the
  conversions of its elements, \<open>null\<close> counting as the empty string. Strings, numbers,
  booleans and \<open>null\<close> always convert.
\<close>

fun to_string_throws :: "json \<Rightarrow> bool" where
  "to_string_throws (JObj props) = (map_of props (js ''toString'') \<noteq> None)"
| "to_string_throws (JArr xs) = (\<exists>x \<in> set xs. to_string_throws x)"
| "to_string_throws _ = False"

section \<open>The video identifier\<close>

text \<open>
  The source's pattern is
  \<^verbatim>\<open>/^.*((youtu.be\/)|(v\/)|(\/u\/\w\/)|(embed\/)|(watch\?))\??v?=?([^#&?]*).*/\<close>.
  It is run the way a backtracking matcher runs it, in continuation-passing style: each
  greedy quantifier first takes the longer alternative and falls back to the shorter one
  when the rest of the pattern fails there; the alternation tries its branches from left
  to right. The result is capture group 7 of the first match found, \<open>None\<close> when
  \<open>url.match\<close> returns \<open>null\<close>. The pattern starts with \<open>^\<close> and has no \<open>g\<close>/\<open>m\<close> flag, so
  a match can only start at index 0.
\<close>

datatype atom = Lit code_unit | Dot | WordChar

fun atom_ok :: "atom \<Rightarrow> code_unit \<Rightarrow> bool" where
  "atom_ok (Lit x) c = (c = x)"
| "atom_ok Dot c = (\<not> is_line_terminator c)"
| "atom_ok WordChar c = is_word_char c"

fun match_atoms :: "atom list \<Rightarrow> jsstring \<Rightarrow> jsstring option" where
  "match_atoms [] s = Some s"
| "match_atoms (a # as) [] = None"
| "match_atoms (a # as) (c # cs) = (if atom_ok a c then match_atoms as cs else None)"

definition lits :: "string \<Rightarrow> atom list" where
  "lits s = map (\<lambda>c. Lit (of_char c)) s"

definition alternatives :: "atom list list" where
  "alternatives =
     [lits ''youtu'' @ [Dot] @ lits ''be/'',
      lits ''v/'',
      lits ''/u/'' @ [WordChar] @ lits ''/'',
      lits ''embed/'',
      lits ''watch?'']"

fun alt :: "atom list list \<Rightarrow> jsstring \<Rightarrow> (jsstring \<Rightarrow> 'r option) \<Rightarrow> 'r option" where
  "alt [] s k = None"
| "alt (a # as) s k =
     (case match_atoms a s of
        None \<Rightarrow> alt as s k
      | Some rest \<Rightarrow> (case k rest of Some r \<Rightarrow> Some r | None \<Rightarrow> alt as s k))"

fun opt :: "code_unit \<Rightarrow> jsstring \<Rightarrow> (jsstring \<Rightarrow> 'r option) \<Rightarrow> 'r option" where
  "opt x [] k = k []"
| "opt x (c # cs) k =
     (if c = x then (case k cs of Some r \<Rightarrow> Some r | None \<Rightarrow> k (c # cs)) else k (c # cs))"

text \<open>Greedy \<open>*\<close> over a character class; the continuation receives what the star consumed.\<close>

fun star :: "(code_unit \<Rightarrow> bool) \<Rightarrow> jsstring \<Rightarrow> jsstring \<Rightarrow>
    (jsstring \<Rightarrow> jsstring \<Rightarrow> 'r option) \<Rightarrow> 'r option" where
  "star P acc [] k = k acc []"
| "star P acc (c # cs) k =
     (if P c
      then (case star P (acc @ [c]) cs k of Some r \<Rightarrow> Some r | None \<Rightarrow> k acc (c # cs))
      else k acc (c # cs))"

definition id_char :: "code_unit \<Rightarrow> bool" where
  \<comment> \<open>\<open>[^#&?]\<close>\<close>
  "id_char c = (c \<noteq> ch CHR ''#'' \<and> c \<noteq> ch CHR ''&'' \<and> c \<noteq> ch CHR ''?'')"

definition regExp_match :: "jsstring \<Rightarrow> jsstring option" where
  "regExp_match url =
     star (\<lambda>c. \<not> is_line_terminator c) [] url (\<lambda>_ s1.
       alt alternatives s1 (\<lambda>s2.
         opt (ch CHR ''?'') s2 (\<lambda>s3.
           opt (ch CHR ''v'') s3 (\<lambda>s4.
             opt (ch CHR ''='') s4 (\<lambda>s5.
               star id_char [] s5 (\<lambda>g s6.
                 star (\<lambda>c. \<not> is_line_terminator c) [] s6 (\<lambda>_ _. Some g)))))))"

text \<open>
  \<open>extractVideoId\<close> is typed \<open>string\<close> in the source, but the handler calls it with the
  \<open>videoUrl\<close> of the request body, which is whatever JSON held. A falsy value leaves at
  \<open>!url\<close>; a truthy value that is not a string has no callable \<open>match\<close>, the \<open>TypeError\<close> is
  caught by the function's own \<open>try\<close>, and the result is \<open>null\<close> again.
\<close>

fun extractVideoId :: "json \<Rightarrow> jsstring option" where
  "extractVideoId (JStr url) =
     (if url = [] then None
      else (case regExp_match url of
              None \<Rightarrow> None
            | Some g \<Rightarrow> if g \<noteq> [] \<and> length g = 11 then Some g else None))"
| "extractVideoId _ = None"

section \<open>Heuristic post-processing of the generated text\<close>

text \<open>
  The test \<open>line.startsWith('-') || line.startsWith('\<bullet>') || /^\d+\./.test(line)\<close> of both
  scanners. \<open>\d+\<close> is greedy, and giving a digit back cannot help: the code unit after a
  shorter run is a digit, not the dot.
\<close>

definition numbered :: "jsstring \<Rightarrow> bool" where
  \<comment> \<open>\<open>/^\d+\./.test(line)\<close>\<close>
  "numbered line =
     (takeWhile is_digit line \<noteq> [] \<and>
      (case dropWhile is_digit line of [] \<Rightarrow> False | c # _ \<Rightarrow> c = ch CHR ''.''))"

definition is_list_line :: "jsstring \<Rightarrow> bool" where
  "is_list_line line =
     (startsWith line [ch CHR ''-''] \<or> startsWith line [bullet] \<or> numbered line)"

text \<open>
  \<open>line.replace(/^[-\<bullet>\d\.]+\s*/, '').trim()\<close>: where the line starts with at least one
  marker, the longest run of markers and the white space after it are removed (the
  pattern has nothing after \<open>\s*\<close>, so the greedy match is the one found); otherwise
  \<open>replace\<close> changes nothing.
\<close>

definition is_marker :: "code_unit \<Rightarrow> bool" where
  \<comment> \<open>\<open>[-\<bullet>\d\.]\<close>\<close>
  "is_marker c = (c = ch CHR ''-'' \<or> c = bullet \<or> is_digit c \<or> c = ch CHR ''.'')"

definition strip_markers :: "jsstring \<Rightarrow> jsstring" where
  "strip_markers line =
     trim (if takeWhile is_marker line \<noteq> []
           then dropWhile is_space (dropWhile is_marker line)
           else line)"

subsection \<open>Key takeaways\<close>

definition takeaway_trigger :: "jsstring \<Rightarrow> bool" where
  "takeaway_trigger line =
     (js_includes (toLowerCase line) (js ''key takeaway'') \<or>
      js_includes (toLowerCase line) (js ''main point''))"

text \<open>
  The \<open>for\<close> loop of \<open>extractKeyTakeaways\<close>, with its two variables as arguments: a trigger
  line sets the flag and \<open>continue\<close>s; any other line is pushed when it passes the test;
  the loop \<open>break\<close>s once five items are there.
\<close>

fun takeaways_loop :: "bool \<Rightarrow> jsstring list \<Rightarrow> jsstring list \<Rightarrow> jsstring list" where
  "takeaways_loop inTakeawaysSection takeaways [] = takeaways"
| "takeaways_loop inTakeawaysSection takeaways (line # lines) =
     (if takeaway_trigger line then takeaways_loop True takeaways lines
      else
        let takeaways' =
              (if inTakeawaysSection \<and> trim line \<noteq> [] \<and> is_list_line line
               then takeaways @ [strip_markers line]
               else takeaways)
        in if length takeaways' \<ge> 5 then takeaways'
           else takeaways_loop inTakeawaysSection takeaways' lines)"

definition extractKeyTakeaways :: "jsstring \<Rightarrow> jsstring list" where
  "extractKeyTakeaways text =
     (let takeaways = takeaways_loop False [] (split_lines text)
      in if length takeaways = 0 then [js ''No specific key takeaways identified'']
         else takeaways)"

subsection \<open>Topics\<close>

record topic =
  topic_title :: jsstring
  topic_description :: jsstring

definition topic_trigger :: "jsstring \<Rightarrow> bool" where
  "topic_trigger line =
     (js_includes (toLowerCase line) (js ''topic'') \<or>
      js_includes (toLowerCase line) (js ''theme'') \<or>
      js_includes (toLowerCase line) (js ''subject''))"

fun topics_loop :: "bool \<Rightarrow> topic list \<Rightarrow> jsstring list \<Rightarrow> topic list" where
  "topics_loop inTopicsSection topics [] = topics"
| "topics_loop inTopicsSection topics (line # lines) =
     (if topic_trigger line then topics_loop True topics lines
      else
        let topics' =
              (if inTopicsSection \<and> trim line \<noteq> [] \<and> is_list_line line
               then (let topicText = strip_markers line
                     in topics @ [\<lparr>topic_title = topicText,
                                   topic_description = js ''Discussion about '' @ topicText\<rparr>])
               else topics)
        in if length topics' \<ge> 5 then topics'
           else topics_loop inTopicsSection topics' lines)"

definition extractTopics :: "jsstring \<Rightarrow> topic list" where
  "extractTopics text =
     (let topics = topics_loop False [] (split_lines text)
      in if length topics = 0
         then [\<lparr>topic_title = js ''General Content'',
                topic_description = js ''The main content of the video''\<rparr>]
         else topics)"

subsection \<open>The static analysis\<close>

record component =
  heading :: jsstring
  comp_description :: jsstring

record framework =
  fw_title :: jsstring
  components :: "component list"

record analysis =
  framework :: framework
  summary :: jsstring
  keyTakeaways :: "jsstring list"
  topics :: "topic list"

definition generateFallbackAnalysis :: "jsstring \<Rightarrow> analysis" where
  "generateFallbackAnalysis title =
     \<lparr>framework =
        \<lparr>fw_title = js ''Framework for '' @ title,
         components =
           [\<lparr>heading = js ''Summary'',
             comp_description =
               js ''A summary of the video could not be generated automatically.''\<rparr>]\<rparr>,
      summary = js ''Unable to generate a summary for this video.'',
      keyTakeaways =
        [js ''Automatic key takeaways could not be generated.'',
         js ''Please watch the video for the main points.''],
      topics =
        [\<lparr>topic_title = js ''Video Content'',
          topic_description = js ''The main content of the video.''\<rparr>]\<rparr>"

section \<open>The world outside the handler\<close>

text \<open>
  An \<open>Error\<close> object as far as the handler reads it. A promise of \<open>fetch\<close> either rejects
  or resolves to a response with a status, whose \<open>json()\<close> throws or yields the parsed body.
\<close>

datatype js_error = Error (err_message: jsstring) (err_stack: jsstring)

datatype 'a fetched = Rejected js_error | Responded nat "js_error + 'a"

definition response_ok :: "nat \<Rightarrow> bool" where
  \<comment> \<open>\<open>response.ok\<close>\<close>
  "response_ok st = (200 \<le> st \<and> st \<le> 299)"

text \<open>The oEmbed document, with the five properties the handler reads, each possibly missing.\<close>

record oembed =
  title :: "jsstring option"
  author_name :: "jsstring option"
  length_seconds :: "int option"
  thumbnail_url :: "jsstring option"
  description :: "jsstring option"

text \<open>
  The body of the transcript provider, by its contract \<open>{ success, message?, data: { text,
  segments? } }\<close>: a falsy \<open>success\<close> with an optional message, or the text with its
  optional segments.
\<close>

datatype supadata_body =
    Failure "jsstring option"
  | Success jsstring "json list option"

text \<open>\<open>groq.chat.completions.create\<close> throws, or returns the choices; of each choice the
  handler reads \<open>message?.content\<close>.\<close>

datatype groq_outcome =
    GroqThrows js_error
  | GroqCompletion "jsstring option list"

record world =
  SUPADATA_API_KEY :: "jsstring option"
  GROQ_API_KEY :: "jsstring option"
  NODE_ENV :: "jsstring option"
  date_now_start :: int
  date_now_end :: int
  random_id :: jsstring
  destructure_null_error :: js_error
  to_primitive_error :: js_error
  new_error_stack :: jsstring
  oembed_fetch :: "jsstring \<Rightarrow> oembed fetched"
  supadata_fetch :: "jsstring \<Rightarrow> (jsstring \<times> jsstring) list \<Rightarrow> supadata_body fetched"
  groq_create :: "(jsstring \<times> jsstring) list \<Rightarrow> jsstring \<Rightarrow> groq_outcome"

text \<open>Every outbound call the handler makes is recorded, in order.\<close>

datatype outbound =
    HttpGet jsstring "(jsstring \<times> jsstring) list"
  | GroqChat "(jsstring \<times> jsstring) list" jsstring

definition new_Error :: "world \<Rightarrow> jsstring \<Rightarrow> js_error" where
  "new_Error w msg = Error msg (new_error_stack w)"

text \<open>\<open>a || b\<close> on a string that may be \<open>undefined\<close>, and on a number likewise.\<close>

definition or_else :: "jsstring option \<Rightarrow> jsstring \<Rightarrow> jsstring" where
  "or_else a b = (case a of None \<Rightarrow> b | Some s \<Rightarrow> if s \<noteq> [] then s else b)"

definition or_zero :: "int option \<Rightarrow> int" where
  "or_zero a = (case a of None \<Rightarrow> 0 | Some n \<Rightarrow> n)"

text \<open>A status code in a template literal.\<close>

definition digit_unit :: "nat \<Rightarrow> code_unit" where
  "digit_unit d = of_nat (48 + d)"

fun show_nat :: "nat \<Rightarrow> jsstring" where
  "show_nat n = (if n < 10 then [digit_unit n] else show_nat (n div 10) @ [digit_unit (n mod 10)])"

declare show_nat.simps [simp del]

section \<open>Metadata\<close>

definition oembed_url :: "jsstring \<Rightarrow> jsstring" where
  "oembed_url videoId =
     js ''https://www.youtube.com/oembed?url=https://www.youtube.com/watch?v='' @ videoId
     @ js ''&format=json''"

definition getYoutubeMetadata_try :: "world \<Rightarrow> json \<Rightarrow> (js_error + oembed option) \<times> outbound list" where
  "getYoutubeMetadata_try w videoUrl =
     (case extractVideoId videoUrl of
        None \<Rightarrow> (Inr None, [])
      | Some videoId \<Rightarrow>
          (let url = oembed_url videoId
           in ((case oembed_fetch w url of
                  Rejected e \<Rightarrow> Inl e
                | Responded st body \<Rightarrow>
                    if \<not> response_ok st then Inr None
                    else (case body of Inl e \<Rightarrow> Inl e | Inr metadata \<Rightarrow> Inr (Some metadata))),
               [HttpGet url []])))"

definition getYoutubeMetadata :: "world \<Rightarrow> json \<Rightarrow> oembed option \<times> outbound list" where
  "getYoutubeMetadata w videoUrl =
     (case getYoutubeMetadata_try w videoUrl of
        (Inr metadata, calls) \<Rightarrow> (metadata, calls)
      | (Inl error, calls) \<Rightarrow> (None, calls))"

section \<open>Responses\<close>

record video_info =
  vi_title :: jsstring
  vi_author :: jsstring
  vi_lengthSeconds :: "int option"
  vi_thumbnailUrl :: jsstring
  vi_description :: "jsstring option"
  vi_videoId :: jsstring
  vi_videoUrl :: json

record transcript_error =
  te_message :: jsstring
  te_code :: jsstring

record transcript =
  content :: jsstring
  segments :: "json list"
  videoInfo :: video_info
  tr_error :: "transcript_error option"

record payload =
  p_transcript :: transcript
  p_analysis :: analysis

datatype error_field = ErrorText jsstring | ErrorAnalysis jsstring

text \<open>The object given to \<open>NextResponse.json\<close>; a property the literal does not have, or has
  with the value \<open>undefined\<close>, is \<open>None\<close>.\<close>

record body =
  success :: bool
  partial :: "bool option"
  error :: "error_field option"
  troubleshooting :: "jsstring option"
  requestId :: "jsstring option"
  processingTime :: "int option"
  data :: "payload option"
  stack :: "jsstring option"

record response =
  status :: nat
  body :: body

definition obj :: "bool \<Rightarrow> body" where
  "obj s = \<lparr>success = s, partial = None, error = None, troubleshooting = None,
            requestId = None, processingTime = None, data = None, stack = None\<rparr>"

text \<open>\<open>NextResponse.json(body, init)\<close> answers with \<open>init.status\<close>, and with 200 when no
  \<open>init\<close> is given.\<close>

definition NextResponse_json :: "body \<Rightarrow> nat option \<Rightarrow> response" where
  "NextResponse_json b init =
     \<lparr>status = (case init of None \<Rightarrow> 200 | Some st \<Rightarrow> st), body = b\<rparr>"

section \<open>The POST handler\<close>

text \<open>
  The innermost \<open>try\<close>: the summarization call and the full-success response, with the
  \<open>catch (groqError)\<close> that answers with the partial success.
\<close>

definition textToAnalyze :: "jsstring \<Rightarrow> jsstring" where
  "textToAnalyze c = (if length c > 15000 then substring0 15000 c @ js ''...'' else c)"

definition groq_messages :: "jsstring \<Rightarrow> (jsstring \<times> jsstring) list" where
  "groq_messages c =
     [(js ''system'',
       js ''You are an AI assistant that creates structured frameworks from YouTube video transcripts.''),
      (js ''user'',
       js ''Based on this transcript, create a structured framework summarizing the main points. Include key takeaways, terms, and topics.''
       @ [0x0A, 0x0A] @ js ''TRANSCRIPT:'' @ [0x0A] @ textToAnalyze c)]"

definition analysisText_of :: "jsstring option list \<Rightarrow> jsstring" where
  \<comment> \<open>\<open>completion.choices[0]?.message?.content || ""\<close>\<close>
  "analysisText_of choices = (case choices of [] \<Rightarrow> [] | c # _ \<Rightarrow> or_else c [])"

definition display_title :: "oembed option \<Rightarrow> jsstring \<Rightarrow> jsstring" where
  \<comment> \<open>\<open>metadata?.title || `Video ${videoId}`\<close>\<close>
  "display_title metadata videoId =
     or_else (Option.bind metadata title) (js ''Video '' @ videoId)"

definition groq_stage ::
  "world \<Rightarrow> transcript \<Rightarrow> oembed option \<Rightarrow> jsstring \<Rightarrow> int \<Rightarrow> jsstring \<Rightarrow> response \<times> outbound list" where
  "groq_stage w transcript metadata videoId requestStartTime reqId =
     (let messages = groq_messages (content transcript);
          model = js ''llama3-70b-8192''
      in ((case groq_create w messages model of
            GroqCompletion choices \<Rightarrow>
              (let analysisText = analysisText_of choices;
                   analysis =
                     \<lparr>framework =
                        \<lparr>fw_title = or_else (Option.bind metadata title)
                                             (js ''Framework for '' @ videoId),
                         components =
                           [\<lparr>heading = js ''Summary'',
                             comp_description = substring0 500 analysisText\<rparr>]\<rparr>,
                      summary = substring0 500 analysisText,
                      keyTakeaways = extractKeyTakeaways analysisText,
                      topics = extractTopics analysisText\<rparr>;
                   requestEndTime = date_now_end w
               in NextResponse_json
                    ((obj True)
                       \<lparr>requestId := Some reqId,
                        processingTime := Some (requestEndTime - requestStartTime),
                        data := Some \<lparr>p_transcript = transcript, p_analysis = analysis\<rparr>\<rparr>)
                    None)
          | GroqThrows groqError \<Rightarrow>
              NextResponse_json
                ((obj True)
                   \<lparr>partial := Some True,
                    error := Some (ErrorAnalysis
                               (js ''Error generating analysis: '' @ err_message groqError)),
                    data := Some \<lparr>p_transcript = transcript,
                                  p_analysis = generateFallbackAnalysis
                                                 (display_title metadata videoId)\<rparr>\<rparr>)
                None),
          [GroqChat messages model]))"

text \<open>
  The \<open>try\<close> around the transcript request, up to the transcript object: everything that
  throws there is an \<open>Inl\<close>.
\<close>

definition default_thumbnail :: "jsstring \<Rightarrow> jsstring" where
  "default_thumbnail videoId = js ''https://img.youtube.com/vi/'' @ videoId @ js ''/hqdefault.jpg''"

definition supadata_url :: "jsstring \<Rightarrow> jsstring" where
  "supadata_url videoId = js ''https://api.supadata.co/services/youtube/transcript?videoId='' @ videoId"

definition supadata_headers :: "jsstring \<Rightarrow> (jsstring \<times> jsstring) list" where
  "supadata_headers key = [(js ''x-api-key'', key), (js ''Content-Type'', js ''application/json'')]"

definition transcript_try ::
  "world \<Rightarrow> jsstring \<Rightarrow> json \<Rightarrow> jsstring \<Rightarrow> oembed option \<Rightarrow> js_error + transcript" where
  "transcript_try w key videoUrl videoId metadata =
     (case supadata_fetch w (supadata_url videoId) (supadata_headers key) of
        Rejected e \<Rightarrow> Inl e
      | Responded st parsed \<Rightarrow>
          if \<not> response_ok st
          then Inl (new_Error w (js ''Supadata API returned status: '' @ show_nat st))
          else (case parsed of
                  Inl e \<Rightarrow> Inl e
                | Inr (Failure msg) \<Rightarrow>
                    Inl (new_Error w (or_else msg (js ''Unknown error from Supadata API'')))
                | Inr (Success txt segs) \<Rightarrow>
                    Inr \<lparr>content = txt,
                         segments = (case segs of None \<Rightarrow> [] | Some sg \<Rightarrow> sg),
                         videoInfo =
                           \<lparr>vi_title = display_title metadata videoId,
                            vi_author = or_else (Option.bind metadata author_name) (js ''Unknown''),
                            vi_lengthSeconds = Some (or_zero (Option.bind metadata length_seconds)),
                            vi_thumbnailUrl = or_else (Option.bind metadata thumbnail_url)
                                                      (default_thumbnail videoId),
                            vi_description = Some (or_else (Option.bind metadata description) []),
                            vi_videoId = videoId,
                            vi_videoUrl = videoUrl\<rparr>,
                         tr_error = None\<rparr>))"

definition fallbackTranscript :: "json \<Rightarrow> jsstring \<Rightarrow> oembed option \<Rightarrow> js_error \<Rightarrow> transcript" where
  "fallbackTranscript videoUrl videoId metadata transcriptError =
     \<lparr>content = js ''Could not fetch transcript for video '' @ videoId,
      segments = [],
      videoInfo =
        \<lparr>vi_title = display_title metadata videoId,
         vi_author = or_else (Option.bind metadata author_name) (js ''Unknown''),
         vi_lengthSeconds = None,
         vi_thumbnailUrl = or_else (Option.bind metadata thumbnail_url) (default_thumbnail videoId),
         vi_description = None,
         vi_videoId = videoId,
         vi_videoUrl = videoUrl\<rparr>,
      tr_error = Some \<lparr>te_message = err_message transcriptError,
                       te_code = js ''TRANSCRIPT_FETCH_ERROR''\<rparr>\<rparr>"

definition transcript_stage ::
  "world \<Rightarrow> jsstring \<Rightarrow> json \<Rightarrow> jsstring \<Rightarrow> oembed option \<Rightarrow> int \<Rightarrow> jsstring
     \<Rightarrow> response \<times> outbound list" where
  "transcript_stage w key videoUrl videoId metadata requestStartTime reqId =
     (let call = HttpGet (supadata_url videoId) (supadata_headers key)
      in (case transcript_try w key videoUrl videoId metadata of
            Inr transcript \<Rightarrow>
              (let (resp, calls) = groq_stage w transcript metadata videoId requestStartTime reqId
               in (resp, call # calls))
          | Inl transcriptError \<Rightarrow>
              (NextResponse_json
                 ((obj False)
                    \<lparr>error := Some (ErrorText
                                 (js ''Failed to fetch transcript: '' @ err_message transcriptError)),
                     data := Some \<lparr>p_transcript = fallbackTranscript videoUrl videoId metadata
                                                     transcriptError,
                                   p_analysis = generateFallbackAnalysis
                                                  (display_title metadata videoId)\<rparr>\<rparr>)
                 None,
               [call])))"

text \<open>
  The outer \<open>try\<close>. \<open>const { videoUrl } = body\<close> throws a \<open>TypeError\<close> on \<open>null\<close>, reads the
  property of an object, and finds nothing on any other value. The \<open>console.log\<close> after the
  test of \<open>videoUrl\<close> puts it into a template literal, which throws where the value does
  not convert to a string. \<open>!KEY\<close> holds for a variable that is not set and for one set to
  the empty string.
\<close>

definition get_property :: "json \<Rightarrow> jsstring \<Rightarrow> json option" where
  \<comment> \<open>\<open>b[name]\<close> on a value parsed from JSON, \<open>None\<close> for \<open>undefined\<close>\<close>
  "get_property b name = (case b of JObj props \<Rightarrow> map_of props name | _ \<Rightarrow> None)"

definition destructure_videoUrl :: "world \<Rightarrow> json \<Rightarrow> js_error + json option" where
  "destructure_videoUrl w b =
     (if b = JNull then Inl (destructure_null_error w)
      else Inr (get_property b (js ''videoUrl'')))"

definition key_missing :: "jsstring option \<Rightarrow> bool" where
  \<comment> \<open>\<open>!KEY\<close>\<close>
  "key_missing k = (case k of None \<Rightarrow> True | Some s \<Rightarrow> s = [])"

definition missing_videoUrl_response :: response where
  "missing_videoUrl_response =
     NextResponse_json
       ((obj False)\<lparr>error := Some (ErrorText (js ''Missing videoUrl parameter in request body''))\<rparr>)
       (Some 400)"

definition missing_supadata_key_response :: response where
  "missing_supadata_key_response =
     NextResponse_json
       ((obj False)
          \<lparr>error := Some (ErrorText (js ''Server configuration error: Missing Supadata API key'')),
           troubleshooting := Some (js ''Add SUPADATA_API_KEY to your environment variables'')\<rparr>)
       (Some 500)"

definition missing_groq_key_response :: response where
  "missing_groq_key_response =
     NextResponse_json
       ((obj False)
          \<lparr>error := Some (ErrorText (js ''Server configuration error: Missing Groq API key'')),
           troubleshooting := Some (js ''Add GROQ_API_KEY to your environment variables'')\<rparr>)
       (Some 500)"

definition invalid_url_response :: response where
  "invalid_url_response =
     NextResponse_json
       ((obj False)
          \<lparr>error := Some (ErrorText (js ''Invalid YouTube URL. Could not extract video ID.''))\<rparr>)
       (Some 400)"

definition POST_try ::
  "world \<Rightarrow> js_error + json \<Rightarrow> int \<Rightarrow> jsstring \<Rightarrow> (js_error + response) \<times> outbound list" where
  "POST_try w req requestStartTime reqId =
     (case req of
        Inl e \<Rightarrow> (Inl e, [])
      | Inr b \<Rightarrow>
          (case destructure_videoUrl w b of
             Inl e \<Rightarrow> (Inl e, [])
           | Inr None \<Rightarrow> (Inr missing_videoUrl_response, [])
           | Inr (Some videoUrl) \<Rightarrow>
               if \<not> truthy videoUrl then (Inr missing_videoUrl_response, [])
               else if to_string_throws videoUrl then (Inl (to_primitive_error w), [])
               else if key_missing (SUPADATA_API_KEY w) then (Inr missing_supadata_key_response, [])
               else if key_missing (GROQ_API_KEY w) then (Inr missing_groq_key_response, [])
               else
                 (case extractVideoId videoUrl of
                    None \<Rightarrow> (Inr invalid_url_response, [])
                  | Some videoId \<Rightarrow>
                      (let (metadata, calls1) = getYoutubeMetadata w videoUrl;
                           (resp, calls2) =
                              transcript_stage w (or_else (SUPADATA_API_KEY w) []) videoUrl videoId
                                metadata requestStartTime reqId
                       in (Inr resp, calls1 @ calls2)))))"

definition server_error_response :: "world \<Rightarrow> js_error \<Rightarrow> int \<Rightarrow> jsstring \<Rightarrow> response" where
  "server_error_response w err requestStartTime reqId =
     (let requestEndTime = date_now_end w
      in NextResponse_json
           ((obj False)
              \<lparr>requestId := Some reqId,
               processingTime := Some (requestEndTime - requestStartTime),
               error := Some (ErrorText (js ''Server error: '' @ err_message err)),
               stack := (if NODE_ENV w = Some (js ''development'')
                         then Some (err_stack err) else None)\<rparr>)
           (Some 500))"

definition POST :: "world \<Rightarrow> js_error + json \<Rightarrow> response \<times> outbound list" where
  "POST w req =
     (let requestStartTime = date_now_start w;
          reqId = random_id w
      in (case POST_try w req requestStartTime reqId of
            (Inr resp, calls) \<Rightarrow> (resp, calls)
          | (Inl err, calls) \<Rightarrow> (server_error_response w err requestStartTime reqId, calls)))"

section \<open>Descriptions of the scanners and example inputs\<close>

text \<open>
  What the two loops compute, said without a loop: of the lines from the first trigger
  line on, those that pass the list test and are not trigger lines themselves, each
  stripped, the first five of them.
\<close>

definition list_items :: "(jsstring \<Rightarrow> bool) \<Rightarrow> jsstring list \<Rightarrow> jsstring list" where
  "list_items trig ls = map strip_markers (filter (\<lambda>l. \<not> trig l \<and> is_list_line l) ls)"

definition collected :: "(jsstring \<Rightarrow> bool) \<Rightarrow> jsstring list \<Rightarrow> jsstring list" where
  "collected trig ls = take 5 (list_items trig (dropWhile (\<lambda>l. \<not> trig l) ls))"

definition topic_of :: "jsstring \<Rightarrow> topic" where
  "topic_of t = \<lparr>topic_title = t, topic_description = js ''Discussion about '' @ t\<rparr>"

definition nl :: jsstring where
  "nl = [0x0A]"

definition seven_bullets :: "jsstring list" where
  "seven_bullets =
     [js ''- a'', bullet # js '' b'', js ''1. c'', js ''- d'', js ''- e'', js ''- f'', js ''- g'']"

definition seven_bullets_text :: jsstring where
  "seven_bullets_text =
     js ''Key Takeaways:'' @ nl @ js ''- a'' @ nl @ bullet # js '' b'' @ nl @ js ''1. c'' @ nl @
     js ''- d'' @ nl @ js ''- e'' @ nl @ js ''- f'' @ nl @ js ''- g''"

definition phrase_bullets :: "jsstring list" where
  "phrase_bullets =
     [js ''- main point'', js ''- b'', js ''- c'', js ''- d'', js ''- e'', js ''- f'', js ''- g'']"

definition phrase_bullets_text :: jsstring where
  "phrase_bullets_text =
     js ''Key Takeaways:'' @ nl @ js ''- main point'' @ nl @ js ''- b'' @ nl @ js ''- c'' @ nl @
     js ''- d'' @ nl @ js ''- e'' @ nl @ js ''- f'' @ nl @ js ''- g''"

definition topics_text :: jsstring where
  "topics_text = js ''Main Topics'' @ nl @ js ''1. Cats'' @ nl @ js ''2. Dogs''"

definition phrase_topics_text :: jsstring where
  "phrase_topics_text = js ''Topics:'' @ nl @ js ''- Topic one'' @ nl @ js ''- b''"







section \<open>Situations of a request and example worlds\<close>

text \<open>
  The request passes the handler's checks: the body has a \<open>videoUrl\<close> from which an
  identifier is extracted, and both keys are configured.
\<close>

definition accepted :: "world \<Rightarrow> json \<Rightarrow> json \<Rightarrow> jsstring \<Rightarrow> jsstring \<Rightarrow> bool" where
  "accepted w b videoUrl videoId key \<longleftrightarrow>
     get_property b (js ''videoUrl'') = Some videoUrl \<and>
     extractVideoId videoUrl = Some videoId \<and>
     SUPADATA_API_KEY w = Some key \<and> key \<noteq> [] \<and>
     \<not> key_missing (GROQ_API_KEY w)"

text \<open>The transcript provider answers with a status that is not 2xx, or with a body whose
  success flag is false.\<close>

definition transcript_fetch_fails ::
  "world \<Rightarrow> jsstring \<Rightarrow> jsstring \<Rightarrow> nat \<Rightarrow> js_error + supadata_body \<Rightarrow> jsstring option \<Rightarrow> bool" where
  "transcript_fetch_fails w key videoId st parsed msg \<longleftrightarrow>
     supadata_fetch w (supadata_url videoId) (supadata_headers key) = Responded st parsed \<and>
     (\<not> response_ok st \<or> parsed = Inr (Failure msg))"

definition upstream_message :: "nat \<Rightarrow> jsstring option \<Rightarrow> jsstring" where
  "upstream_message st msg =
     (if \<not> response_ok st then js ''Supadata API returned status: '' @ show_nat st
      else or_else msg (js ''Unknown error from Supadata API''))"

text \<open>The transcript is retrieved and the summarization call throws.\<close>

definition summarization_throws ::
  "world \<Rightarrow> jsstring \<Rightarrow> jsstring \<Rightarrow> nat \<Rightarrow> jsstring \<Rightarrow> json list option \<Rightarrow> js_error \<Rightarrow> bool" where
  "summarization_throws w key videoId st txt segs e \<longleftrightarrow>
     supadata_fetch w (supadata_url videoId) (supadata_headers key)
       = Responded st (Inr (Success txt segs)) \<and>
     response_ok st \<and>
     groq_create w (groq_messages txt) (js ''llama3-70b-8192'') = GroqThrows e"

definition example_error :: js_error where
  "example_error = Error (js ''boom'') (js ''Error: boom at handler'')"

text \<open>A world with both keys, where the metadata lookup is rejected, the transcript
  provider returns a text, and the summarization throws.\<close>

definition example_world :: world where
  "example_world =
     \<lparr>SUPADATA_API_KEY = Some (js ''sk''),
      GROQ_API_KEY = Some (js ''gk''),
      NODE_ENV = None,
      date_now_start = 1000,
      date_now_end = 1250,
      random_id = js ''ab12cd34'',
      destructure_null_error =
        Error (js ''Cannot destructure property videoUrl of body as it is null.'') (js ''TypeError''),
      to_primitive_error =
        Error (js ''Cannot convert object to primitive value'') (js ''TypeError''),
      new_error_stack = js ''Error'',
      oembed_fetch = (\<lambda>_. Rejected example_error),
      supadata_fetch = (\<lambda>_ _. Responded 200 (Inr (Success (js ''hello'') None))),
      groq_create = (\<lambda>_ _. GroqThrows example_error)\<rparr>"

definition example_body :: json where
  "example_body = JObj [(js ''videoUrl'', JStr (js ''v/abcdefghijk''))]"

text \<open>The same world with a transcript provider that answers 500, and with a summarization
  that answers.\<close>

definition failing_world :: world where
  "failing_world = example_world\<lparr>supadata_fetch := (\<lambda>_ _. Responded 500 (Inl example_error))\<rparr>"

definition succeeding_world :: world where
  "succeeding_world = example_world\<lparr>groq_create := (\<lambda>_ _. GroqCompletion [Some (js ''fine'')])\<rparr>"

text \<open>The example world with a metadata lookup that answers, once with a title and once
  with an empty title.\<close>

definition titled_world :: world where
  "titled_world =
     example_world\<lparr>oembed_fetch := (\<lambda>_. Responded 200
        (Inr \<lparr>title = Some (js ''My talk''), author_name = None, length_seconds = None,
              thumbnail_url = None, description = None\<rparr>))\<rparr>"

definition empty_title_world :: world where
  "empty_title_world =
     example_world\<lparr>oembed_fetch := (\<lambda>_. Responded 200
        (Inr \<lparr>title = Some [], author_name = None, length_seconds = None,
              thumbnail_url = None, description = None\<rparr>))\<rparr>"

text \<open>The example world with a transcript provider that answers 200 with a false success
  flag and a message, and one that answers 500 with the same body.\<close>

definition refusing_world :: world where
  "refusing_world =
     example_world\<lparr>supadata_fetch :=
       (\<lambda>_ _. Responded 200 (Inr (Failure (Some (js ''quota exceeded'')))))\<rparr>"

definition overloaded_world :: world where
  "overloaded_world =
     example_world\<lparr>supadata_fetch :=
       (\<lambda>_ _. Responded 500 (Inr (Failure (Some (js ''quota exceeded'')))))\<rparr>"


section \<open>Properties of the scanners\<close>

lemma digit_not_space: "is_digit c \<Longrightarrow> \<not> is_space c"
  by (auto simp: is_digit_def is_space_def)

lemma dash_not_space: "\<not> is_space (ch CHR ''-'')"
  by (simp add: is_space_def ch_def)

lemma bullet_not_space: "\<not> is_space bullet"
  by (simp add: is_space_def bullet_def)

lemma trim_nonempty: "\<not> is_space c \<Longrightarrow> trim (c # cs) \<noteq> []"
  by (auto simp: trim_def dropWhile_eq_Nil_conv)

lemma list_line_first: "is_list_line l \<Longrightarrow> \<exists>c cs. l = c # cs \<and> \<not> is_space c"
  apply (cases l)
   apply (simp add: is_list_line_def startsWith_def numbered_def)
  apply (auto simp: is_list_line_def startsWith_def numbered_def dash_not_space bullet_not_space digit_not_space split: if_splits)
  done

lemma list_line_not_blank: "is_list_line l \<Longrightarrow> trim l \<noteq> []"
  using list_line_first trim_nonempty by blast

lemma takeaways_loop_in:
  "length acc < 5 \<Longrightarrow>
   takeaways_loop True acc ls = take 5 (acc @ list_items takeaway_trigger ls)"
proof (induction ls arbitrary: acc)
  case Nil
  then show ?case by (simp add: list_items_def)
next
  case (Cons l ls)
  show ?case
  proof (cases "takeaway_trigger l")
    case True
    then show ?thesis using Cons by (simp add: list_items_def)
  next
    case notrig: False
    show ?thesis
    proof (cases "is_list_line l")
      case ll: True
      show ?thesis
      proof (cases "length acc = 4")
        case True
        then show ?thesis using notrig ll list_line_not_blank[OF ll]
          by (simp add: list_items_def Let_def)
      next
        case False
        then have "length (acc @ [strip_markers l]) < 5" using Cons.prems by simp
        from Cons.IH[OF this] show ?thesis
          using notrig ll list_line_not_blank[OF ll] Cons.prems False
          by (simp add: list_items_def Let_def)
      qed
    next
      case False
      then show ?thesis using notrig Cons by (simp add: list_items_def Let_def)
    qed
  qed
qed

lemma takeaways_loop_out:
  "takeaways_loop False [] ls = collected takeaway_trigger ls"
proof (induction ls)
  case Nil
  then show ?case by (simp add: collected_def list_items_def)
next
  case (Cons l ls)
  show ?case
  proof (cases "takeaway_trigger l")
    case True
    then show ?thesis using takeaways_loop_in[of "[]" ls]
      by (simp add: collected_def list_items_def)
  next
    case False
    then show ?thesis using Cons by (simp add: collected_def Let_def)
  qed
qed

lemma topics_loop_in:
  "length acc < 5 \<Longrightarrow>
   topics_loop True acc ls = take 5 (acc @ map topic_of (list_items topic_trigger ls))"
proof (induction ls arbitrary: acc)
  case Nil
  then show ?case by (simp add: list_items_def)
next
  case (Cons l ls)
  show ?case
  proof (cases "topic_trigger l")
    case True
    then show ?thesis using Cons by (simp add: list_items_def)
  next
    case notrig: False
    show ?thesis
    proof (cases "is_list_line l")
      case ll: True
      show ?thesis
      proof (cases "length acc = 4")
        case True
        then show ?thesis using notrig ll list_line_not_blank[OF ll]
          by (simp add: list_items_def Let_def topic_of_def)
      next
        case False
        then have "length (acc @ [topic_of (strip_markers l)]) < 5" using Cons.prems by simp
        from Cons.IH[OF this] show ?thesis
          using notrig ll list_line_not_blank[OF ll] Cons.prems False
          by (simp add: list_items_def Let_def topic_of_def)
      qed
    next
      case False
      then show ?thesis using notrig Cons by (simp add: list_items_def Let_def)
    qed
  qed
qed

lemma topics_loop_out:
  "topics_loop False [] ls = map topic_of (collected topic_trigger ls)"
proof (induction ls)
  case Nil
  then show ?case by (simp add: collected_def list_items_def)
next
  case (Cons l ls)
  show ?case
  proof (cases "topic_trigger l")
    case True
    then show ?thesis using topics_loop_in[of "[]" ls]
      by (simp add: collected_def list_items_def take_map)
  next
    case False
    then show ?thesis using Cons by (simp add: collected_def Let_def)
  qed
qed

lemma startsWith_iff: "startsWith s p \<longleftrightarrow> (\<exists>b. s = p @ b)"
  unfolding startsWith_def
  by (metis append_eq_conv_conj append_take_drop_id)

lemma js_includes_iff: "js_includes s p \<longleftrightarrow> (\<exists>a b. s = a @ p @ b)"
proof (induction s)
  case Nil
  then show ?case by simp
next
  case (Cons c cs)
  show ?case
  proof
    assume "js_includes (c # cs) p"
    then consider "startsWith (c # cs) p" | "js_includes cs p" by auto
    then show "\<exists>a b. c # cs = a @ p @ b"
    proof cases
      case 1
      then obtain b where "c # cs = p @ b" using startsWith_iff by blast
      then have "c # cs = [] @ p @ b" by simp
      then show ?thesis by blast
    next
      case 2
      then obtain a b where "cs = a @ p @ b" using Cons.IH by blast
      then have "c # cs = (c # a) @ p @ b" by simp
      then show ?thesis by blast
    qed
  next
    assume "\<exists>a b. c # cs = a @ p @ b"
    then obtain a b where ab: "c # cs = a @ p @ b" by blast
    show "js_includes (c # cs) p"
    proof (cases a)
      case Nil
      then have "startsWith (c # cs) p" using ab startsWith_iff by auto
      then show ?thesis by simp
    next
      case (Cons x xs)
      then have "cs = xs @ p @ b" using ab by simp
      then have "js_includes cs p" using Cons.IH by blast
      then show ?thesis by simp
    qed
  qed
qed

lemma split_lines_nonempty: "split_lines t \<noteq> []"
  by (induction t) (auto split: list.splits)

lemma split_lines_head: "split_lines t = h # r \<Longrightarrow> \<exists>b. t = h @ b"
proof (induction t arbitrary: h r)
  case Nil
  then show ?case by simp
next
  case (Cons c cs)
  show ?case
  proof (cases "c = 0x0A")
    case True
    then show ?thesis using Cons.prems by auto
  next
    case False
    obtain h' r' where hr: "split_lines cs = h' # r'"
      using split_lines_nonempty by (cases "split_lines cs") auto
    then obtain b where "cs = h' @ b" using Cons.IH by blast
    moreover have "h = c # h'" using Cons.prems False hr by simp
    ultimately have "c # cs = h @ b" by simp
    then show ?thesis by blast
  qed
qed

lemma split_lines_part: "l \<in> set (split_lines t) \<Longrightarrow> \<exists>a b. t = a @ l @ b"
proof (induction t arbitrary: l)
  case Nil
  then show ?case by simp
next
  case (Cons c cs)
  show ?case
  proof (cases "c = 0x0A")
    case True
    then have "l = [] \<or> l \<in> set (split_lines cs)" using Cons.prems by auto
    then show ?thesis
    proof
      assume "l = []"
      then have "c # cs = [] @ l @ (c # cs)" by simp
      then show ?thesis by blast
    next
      assume "l \<in> set (split_lines cs)"
      then obtain a b where "cs = a @ l @ b" using Cons.IH by blast
      then have "c # cs = (c # a) @ l @ b" by simp
      then show ?thesis by blast
    qed
  next
    case False
    obtain h r where hr: "split_lines cs = h # r"
      using split_lines_nonempty by (cases "split_lines cs") auto
    then have "l = c # h \<or> l \<in> set r" using Cons.prems False by auto
    then show ?thesis
    proof
      assume l: "l = c # h"
      obtain b where "cs = h @ b" using split_lines_head[OF hr] by blast
      then have "c # cs = [] @ l @ b" using l by simp
      then show ?thesis by blast
    next
      assume "l \<in> set r"
      then have "l \<in> set (split_lines cs)" using hr by simp
      then obtain a b where "cs = a @ l @ b" using Cons.IH by blast
      then have "c # cs = (c # a) @ l @ b" by simp
      then show ?thesis by blast
    qed
  qed
qed


lemma toLowerCase_append: "toLowerCase (a @ b) = toLowerCase a @ toLowerCase b"
  by (simp add: toLowerCase_def)

lemma line_includes_text:
  assumes "l \<in> set (split_lines t)" and "js_includes (toLowerCase l) p"
  shows "js_includes (toLowerCase t) p"
proof -
  obtain a b where t: "t = a @ l @ b" using split_lines_part[OF assms(1)] by blast
  obtain x y where "toLowerCase l = x @ p @ y" using assms(2) js_includes_iff by blast
  then have "toLowerCase t = (toLowerCase a @ x) @ p @ (y @ toLowerCase b)"
    using t by (simp add: toLowerCase_append)
  then show ?thesis using js_includes_iff by blast
qed

lemma collected_no_trigger: "\<forall>l\<in>set ls. \<not> trig l \<Longrightarrow> collected trig ls = []"
  by (induction ls) (auto simp: collected_def list_items_def)

lemmas string_eval =
  js_def ch_def bullet_def nl_def is_space_def is_digit_def is_marker_def is_line_terminator_def
  lower_unit_def toLowerCase_def startsWith_def trim_def numbered_def is_list_line_def
  strip_markers_def takeaway_trigger_def topic_trigger_def

lemma collected_section:
  assumes pre: "\<forall>l\<in>set pre. \<not> trig l" and hdr: "trig hdr"
    and bl: "\<forall>l\<in>set bullets. is_list_line l \<and> \<not> trig l" and len: "5 \<le> length bullets"
  shows "collected trig (pre @ hdr # bullets @ post) = map strip_markers (take 5 bullets)"
proof -
  have d: "dropWhile (\<lambda>l. \<not> trig l) (pre @ hdr # bullets @ post) = hdr # bullets @ post"
    using pre hdr by (simp add: dropWhile_append2)
  have f: "filter (\<lambda>l. \<not> trig l \<and> is_list_line l) bullets = bullets"
    using bl by (simp add: filter_id_conv)
  have "list_items trig (hdr # bullets @ post) = map strip_markers bullets @ list_items trig post"
    using hdr f by (simp add: list_items_def)
  then show ?thesis using d len by (simp add: collected_def take_map)
qed

subsection \<open>Key takeaways\<close>

text \<open>
  Claim C5, as amended. For every input text, \<open>extractKeyTakeaways\<close> scans the lines in
  order; from the first line containing "key takeaway" or "main point" (in any case) on,
  it collects each later line that starts with \<open>-\<close>, the bullet, or digits followed by a
  dot, and that does not itself contain one of the two phrases, stripped of its leading
  markers and trimmed; it stops at five items or at the end of the input, and returns the
  one placeholder string when it collected nothing. On an input whose first trigger line
  is followed by 7 list lines, none of them containing one of the two phrases, it returns
  exactly the first 5 of them, stripped.
\<close>

theorem extractKeyTakeaways_collected:
  "extractKeyTakeaways text =
     (let items = collected takeaway_trigger (split_lines text)
      in if items = [] then [js ''No specific key takeaways identified''] else items)
   \<and> (split_lines text = pre @ hdr # bullets @ post \<and>
        (\<forall>l\<in>set pre. \<not> takeaway_trigger l) \<and> takeaway_trigger hdr \<and>
        length bullets = 7 \<and> (\<forall>l\<in>set bullets. is_list_line l \<and> \<not> takeaway_trigger l)
      \<longrightarrow> extractKeyTakeaways text = map strip_markers (take 5 bullets))"
proof -
  have general: "extractKeyTakeaways text =
     (let items = collected takeaway_trigger (split_lines text)
      in if items = [] then [js ''No specific key takeaways identified''] else items)"
    by (simp add: extractKeyTakeaways_def takeaways_loop_out Let_def)
  have example: "extractKeyTakeaways text = map strip_markers (take 5 bullets)"
    if sp: "split_lines text = pre @ hdr # bullets @ post"
      and pre: "\<forall>l\<in>set pre. \<not> takeaway_trigger l" and hdr: "takeaway_trigger hdr"
      and len: "length bullets = 7"
      and bl: "\<forall>l\<in>set bullets. is_list_line l \<and> \<not> takeaway_trigger l"
  proof -
    have "collected takeaway_trigger (split_lines text) = map strip_markers (take 5 bullets)"
      using collected_section[OF pre hdr bl] len sp by simp
    moreover have "map strip_markers (take 5 bullets) \<noteq> []" using len by auto
    ultimately show ?thesis using general by (simp add: Let_def)
  qed
  show ?thesis using general example by blast
qed

text \<open>The theorem at a "Key Takeaways:" line followed by seven list lines of the three kinds.\<close>

theorem extractKeyTakeaways_collected_witness:
  "split_lines seven_bullets_text = [] @ js ''Key Takeaways:'' # seven_bullets @ [] \<and>
   takeaway_trigger (js ''Key Takeaways:'') \<and> length seven_bullets = 7 \<and>
   extractKeyTakeaways seven_bullets_text = [js ''a'', js ''b'', js ''c'', js ''d'', js ''e'']"
proof -
  have sp: "split_lines seven_bullets_text = [] @ js ''Key Takeaways:'' # seven_bullets @ []"
    by (simp add: seven_bullets_text_def seven_bullets_def js_def nl_def bullet_def)
  have pre: "\<forall>l\<in>set ([]::jsstring list). \<not> takeaway_trigger l" by simp
  have hdr: "takeaway_trigger (js ''Key Takeaways:'')" by (simp add: string_eval)
  have len: "length seven_bullets = 7" by (simp add: seven_bullets_def)
  have bl: "\<forall>l\<in>set seven_bullets. is_list_line l \<and> \<not> takeaway_trigger l"
    by (simp add: seven_bullets_def string_eval)
  have st: "map strip_markers (take 5 seven_bullets) = [js ''a'', js ''b'', js ''c'', js ''d'', js ''e'']"
    by (simp add: seven_bullets_def string_eval)
  from extractKeyTakeaways_collected[of seven_bullets_text "[]" "js ''Key Takeaways:''" seven_bullets "[]"]
    sp pre hdr len bl
  have "extractKeyTakeaways seven_bullets_text = map strip_markers (take 5 seven_bullets)"
    by blast
  then show ?thesis using sp hdr len st by simp
qed

text \<open>
  Claim C5 as it was stated fails where a list line contains one of the phrases: the line
  "- main point" comes after the "Key Takeaways:" line, is not blank and starts with \<open>-\<close>,
  and is not collected, so that of seven bulleted lines the second to the sixth are
  returned, not the first five.
\<close>

theorem extractKeyTakeaways_skips_phrase_bullet:
  "split_lines phrase_bullets_text = js ''Key Takeaways:'' # phrase_bullets \<and>
   takeaway_trigger (js ''Key Takeaways:'') \<and> length phrase_bullets = 7 \<and>
   list_all is_list_line phrase_bullets \<and>
   list_all (\<lambda>l. trim l \<noteq> []) phrase_bullets \<and>
   map strip_markers (take 5 phrase_bullets) =
     [js ''main point'', js ''b'', js ''c'', js ''d'', js ''e''] \<and>
   extractKeyTakeaways phrase_bullets_text = [js ''b'', js ''c'', js ''d'', js ''e'', js ''f'']"
proof -
  have sp: "split_lines phrase_bullets_text = js ''Key Takeaways:'' # phrase_bullets"
    by (simp add: phrase_bullets_text_def phrase_bullets_def js_def nl_def)
  have hdr: "takeaway_trigger (js ''Key Takeaways:'')" by (simp add: string_eval)
  have len: "length phrase_bullets = 7" by (simp add: phrase_bullets_def)
  have ll: "list_all is_list_line phrase_bullets" by (simp add: phrase_bullets_def string_eval)
  have nb: "list_all (\<lambda>l. trim l \<noteq> []) phrase_bullets"
    by (simp add: phrase_bullets_def string_eval)
  have st: "map strip_markers (take 5 phrase_bullets) =
     [js ''main point'', js ''b'', js ''c'', js ''d'', js ''e'']"
    by (simp add: phrase_bullets_def string_eval)
  have ex: "extractKeyTakeaways phrase_bullets_text =
     [js ''b'', js ''c'', js ''d'', js ''e'', js ''f'']"
    by (simp add: extractKeyTakeaways_def phrase_bullets_text_def string_eval)
  show ?thesis using sp hdr len ll nb st ex by blast
qed

subsection \<open>Topics\<close>

text \<open>
  Claim C6, as amended. For every input text, \<open>extractTopics\<close> scans the lines in order;
  from the first line containing "topic", "theme" or "subject" (in any case) on, it
  collects each later line that starts with \<open>-\<close>, the bullet, or digits followed by a
  dot, and that does not itself contain one of the three phrases (the scan of
  \<open>extractKeyTakeaways\<close>: both loops compute \<open>collected\<close>); each collected line becomes a
  topic whose title is the stripped line and whose description is "Discussion about "
  followed by it; there are at most 5 topics; and an input that contains none of the
  three phrases gives exactly the one placeholder topic titled "General Content".
\<close>

theorem extractTopics_collected:
  "extractTopics text =
     (let items = collected topic_trigger (split_lines text)
      in if items = []
         then [\<lparr>topic_title = js ''General Content'',
                topic_description = js ''The main content of the video''\<rparr>]
         else map (\<lambda>t. \<lparr>topic_title = t, topic_description = js ''Discussion about '' @ t\<rparr>) items)
   \<and> length (extractTopics text) \<le> 5
   \<and> (\<not> js_includes (toLowerCase text) (js ''topic'') \<and>
       \<not> js_includes (toLowerCase text) (js ''theme'') \<and>
       \<not> js_includes (toLowerCase text) (js ''subject'')
      \<longrightarrow> extractTopics text =
            [\<lparr>topic_title = js ''General Content'',
              topic_description = js ''The main content of the video''\<rparr>])"
proof -
  have tf: "topic_of = (\<lambda>t. \<lparr>topic_title = t, topic_description = js ''Discussion about '' @ t\<rparr>)"
    by (rule ext) (simp add: topic_of_def)
  have general: "extractTopics text =
     (let items = collected topic_trigger (split_lines text)
      in if items = []
         then [\<lparr>topic_title = js ''General Content'',
                topic_description = js ''The main content of the video''\<rparr>]
         else map (\<lambda>t. \<lparr>topic_title = t, topic_description = js ''Discussion about '' @ t\<rparr>) items)"
    by (simp add: extractTopics_def topics_loop_out Let_def tf)
  have "length (collected topic_trigger (split_lines text)) \<le> 5"
    by (simp add: collected_def)
  then have cap: "length (extractTopics text) \<le> 5"
    using general by (simp add: Let_def)
  have none: "extractTopics text =
            [\<lparr>topic_title = js ''General Content'',
              topic_description = js ''The main content of the video''\<rparr>]"
    if no: "\<not> js_includes (toLowerCase text) (js ''topic'') \<and>
       \<not> js_includes (toLowerCase text) (js ''theme'') \<and>
       \<not> js_includes (toLowerCase text) (js ''subject'')"
  proof -
    have "\<forall>l\<in>set (split_lines text). \<not> topic_trigger l"
      using no line_includes_text unfolding topic_trigger_def by blast
    then have "collected topic_trigger (split_lines text) = []"
      by (rule collected_no_trigger)
    then show ?thesis using general by (simp add: Let_def)
  qed
  show ?thesis using general cap none by blast
qed

text \<open>The theorem at an input without a phrase, and at a "Main Topics" line with two
  numbered lines.\<close>

theorem extractTopics_collected_witness:
  "\<not> js_includes (toLowerCase (js ''- a'')) (js ''topic'') \<and>
   \<not> js_includes (toLowerCase (js ''- a'')) (js ''theme'') \<and>
   \<not> js_includes (toLowerCase (js ''- a'')) (js ''subject'') \<and>
   extractTopics (js ''- a'') =
     [\<lparr>topic_title = js ''General Content'',
       topic_description = js ''The main content of the video''\<rparr>] \<and>
   extractTopics topics_text =
     [\<lparr>topic_title = js ''Cats'', topic_description = js ''Discussion about Cats''\<rparr>,
      \<lparr>topic_title = js ''Dogs'', topic_description = js ''Discussion about Dogs''\<rparr>]"
proof -
  have no: "\<not> js_includes (toLowerCase (js ''- a'')) (js ''topic'') \<and>
   \<not> js_includes (toLowerCase (js ''- a'')) (js ''theme'') \<and>
   \<not> js_includes (toLowerCase (js ''- a'')) (js ''subject'')"
    by (simp add: string_eval)
  have c: "collected topic_trigger (split_lines topics_text) = [js ''Cats'', js ''Dogs'']"
    by (simp add: collected_def list_items_def topics_text_def string_eval)
  have d: "js ''Discussion about '' @ js ''Cats'' = js ''Discussion about Cats'' \<and>
           js ''Discussion about '' @ js ''Dogs'' = js ''Discussion about Dogs''"
    by (simp add: js_def)
  have e1: "extractTopics (js ''- a'') =
     [\<lparr>topic_title = js ''General Content'',
       topic_description = js ''The main content of the video''\<rparr>]"
    using extractTopics_collected[of "js ''- a''"] no by blast
  have "extractTopics topics_text =
     (let items = collected topic_trigger (split_lines topics_text)
      in if items = []
         then [\<lparr>topic_title = js ''General Content'',
                topic_description = js ''The main content of the video''\<rparr>]
         else map (\<lambda>t. \<lparr>topic_title = t, topic_description = js ''Discussion about '' @ t\<rparr>) items)"
    using extractTopics_collected[of topics_text] by blast
  then have e2: "extractTopics topics_text =
     [\<lparr>topic_title = js ''Cats'', topic_description = js ''Discussion about Cats''\<rparr>,
      \<lparr>topic_title = js ''Dogs'', topic_description = js ''Discussion about Dogs''\<rparr>]"
    using d by (simp only: c Let_def) simp
  show ?thesis using no e1 e2 by blast
qed

text \<open>
  Claim C6 as it was stated makes every list line after the trigger line a topic. The
  line "- Topic one" comes after the line "Topics:", is not blank and starts with \<open>-\<close>,
  and is not collected, since it contains the phrase itself: the only topic is "b".
\<close>

theorem extractTopics_skips_phrase_bullet:
  "split_lines phrase_topics_text = [js ''Topics:'', js ''- Topic one'', js ''- b''] \<and>
   topic_trigger (js ''Topics:'') \<and>
   is_list_line (js ''- Topic one'') \<and> trim (js ''- Topic one'') \<noteq> [] \<and>
   strip_markers (js ''- Topic one'') = js ''Topic one'' \<and>
   extractTopics phrase_topics_text =
     [\<lparr>topic_title = js ''b'', topic_description = js ''Discussion about b''\<rparr>]"
proof -
  have sp: "split_lines phrase_topics_text = [js ''Topics:'', js ''- Topic one'', js ''- b'']"
    by (simp add: phrase_topics_text_def js_def nl_def)
  have hdr: "topic_trigger (js ''Topics:'')" by (simp add: string_eval)
  have ll: "is_list_line (js ''- Topic one'')" and nb: "trim (js ''- Topic one'') \<noteq> []"
    and st: "strip_markers (js ''- Topic one'') = js ''Topic one''"
    by (simp_all add: string_eval)
  have ex: "extractTopics phrase_topics_text =
     [\<lparr>topic_title = js ''b'', topic_description = js ''Discussion about b''\<rparr>]"
    by (simp add: extractTopics_def phrase_topics_text_def string_eval Let_def)
  show ?thesis using sp hdr ll nb st ex by blast
qed

section \<open>Properties of the video identifier\<close>






















lemmas regex_eval =
  regExp_match_def alternatives_def lits_def js_def ch_def id_char_def is_line_terminator_def
  is_word_char_def is_digit_def




section \<open>Properties of the POST handler\<close>

lemma extractVideoId_truthy: "extractVideoId v = Some g \<Longrightarrow> truthy v"
  by (cases v) (auto split: if_splits)

lemma extractVideoId_converts: "extractVideoId v = Some g \<Longrightarrow> \<not> to_string_throws v"
  by (cases v) auto

lemma accepted_POST:
  assumes "accepted w b videoUrl videoId key"
  shows "POST w (Inr b) =
           (fst (transcript_stage w key videoUrl videoId (fst (getYoutubeMetadata w videoUrl))
                   (date_now_start w) (random_id w)),
            snd (getYoutubeMetadata w videoUrl) @
            snd (transcript_stage w key videoUrl videoId (fst (getYoutubeMetadata w videoUrl))
                   (date_now_start w) (random_id w)))"
proof -
  have gp: "get_property b (js ''videoUrl'') = Some videoUrl"
    and ev: "extractVideoId videoUrl = Some videoId"
    and k: "SUPADATA_API_KEY w = Some key" "key \<noteq> []"
    and g: "\<not> key_missing (GROQ_API_KEY w)"
    using assms by (auto simp: accepted_def)
  have nn: "b \<noteq> JNull" using gp by (auto simp: get_property_def)
  have d: "destructure_videoUrl w b = Inr (Some videoUrl)"
    using nn gp by (simp add: destructure_videoUrl_def)
  have t: "truthy videoUrl" using ev by (rule extractVideoId_truthy)
  have c: "\<not> to_string_throws videoUrl" using ev by (rule extractVideoId_converts)
  have km: "\<not> key_missing (SUPADATA_API_KEY w)" using k by (simp add: key_missing_def)
  have ke: "or_else (SUPADATA_API_KEY w) [] = key" using k by (simp add: or_else_def)
  have "POST_try w (Inr b) (date_now_start w) (random_id w) =
          (Inr (fst (transcript_stage w key videoUrl videoId (fst (getYoutubeMetadata w videoUrl))
                   (date_now_start w) (random_id w))),
            snd (getYoutubeMetadata w videoUrl) @
            snd (transcript_stage w key videoUrl videoId (fst (getYoutubeMetadata w videoUrl))
                   (date_now_start w) (random_id w)))"
    unfolding POST_try_def using d t c km g ev ke
    by (simp add: split_beta Let_def)
  then show ?thesis by (simp add: POST_def Let_def)
qed

lemma transcript_try_fails:
  assumes "transcript_fetch_fails w key videoId st parsed msg"
  shows "transcript_try w key videoUrl videoId metadata
           = Inl (new_Error w (upstream_message st msg))"
  using assms
  by (auto simp: transcript_fetch_fails_def transcript_try_def upstream_message_def)

lemma transcript_stage_failure:
  assumes "transcript_try w key videoUrl videoId metadata = Inl e"
  shows "transcript_stage w key videoUrl videoId metadata t0 rid =
           (NextResponse_json
              ((obj False)
                 \<lparr>error := Some (ErrorText (js ''Failed to fetch transcript: '' @ err_message e)),
                  data := Some \<lparr>p_transcript = fallbackTranscript videoUrl videoId metadata e,
                                p_analysis = generateFallbackAnalysis
                                               (display_title metadata videoId)\<rparr>\<rparr>)
              None,
            [HttpGet (supadata_url videoId) (supadata_headers key)])"
  using assms by (simp add: transcript_stage_def Let_def)

lemma transcript_try_success:
  assumes "supadata_fetch w (supadata_url videoId) (supadata_headers key)
             = Responded st (Inr (Success txt segs))" and "response_ok st"
  shows "\<exists>t. transcript_try w key videoUrl videoId metadata = Inr t \<and> content t = txt \<and>
             segments t = (case segs of None \<Rightarrow> [] | Some sg \<Rightarrow> sg) \<and> tr_error t = None \<and>
             vi_title (videoInfo t) = display_title metadata videoId \<and>
             vi_author (videoInfo t) = or_else (Option.bind metadata author_name) (js ''Unknown'') \<and>
             vi_thumbnailUrl (videoInfo t) =
               or_else (Option.bind metadata thumbnail_url) (default_thumbnail videoId) \<and>
             vi_videoId (videoInfo t) = videoId \<and> vi_videoUrl (videoInfo t) = videoUrl"
  using assms by (simp add: transcript_try_def)

lemma groq_stage_throws:
  assumes "groq_create w (groq_messages (content t)) (js ''llama3-70b-8192'') = GroqThrows e"
  shows "groq_stage w t metadata videoId t0 rid =
           (NextResponse_json
              ((obj True)
                 \<lparr>partial := Some True,
                  error := Some (ErrorAnalysis (js ''Error generating analysis: '' @ err_message e)),
                  data := Some \<lparr>p_transcript = t,
                                p_analysis = generateFallbackAnalysis
                                               (display_title metadata videoId)\<rparr>\<rparr>)
              None,
            [GroqChat (groq_messages (content t)) (js ''llama3-70b-8192'')])"
  using assms by (simp add: groq_stage_def Let_def)

lemma groq_stage_completes:
  assumes "groq_create w (groq_messages (content t)) (js ''llama3-70b-8192'') = GroqCompletion cs"
  shows "\<exists>a. groq_stage w t metadata videoId t0 rid =
           (NextResponse_json
              ((obj True)
                 \<lparr>requestId := Some rid,
                  processingTime := Some (date_now_end w - t0),
                  data := Some \<lparr>p_transcript = t, p_analysis = a\<rparr>\<rparr>)
              None,
            [GroqChat (groq_messages (content t)) (js ''llama3-70b-8192'')])"
  using assms by (simp add: groq_stage_def Let_def) blast

lemma transcript_stage_success:
  assumes "transcript_try w key videoUrl videoId metadata = Inr t"
  shows "transcript_stage w key videoUrl videoId metadata t0 rid =
           (fst (groq_stage w t metadata videoId t0 rid),
            HttpGet (supadata_url videoId) (supadata_headers key)
              # snd (groq_stage w t metadata videoId t0 rid))"
  using assms by (simp add: transcript_stage_def Let_def split_beta)

lemma POST_partial:
  assumes acc: "accepted w b videoUrl videoId key"
    and thr: "summarization_throws w key videoId st txt segs e"
  shows "\<exists>t. transcript_try w key videoUrl videoId (fst (getYoutubeMetadata w videoUrl)) = Inr t \<and>
             content t = txt \<and>
             segments t = (case segs of None \<Rightarrow> [] | Some sg \<Rightarrow> sg) \<and> tr_error t = None \<and>
             fst (POST w (Inr b)) =
               NextResponse_json
                 ((obj True)
                    \<lparr>partial := Some True,
                     error := Some (ErrorAnalysis (js ''Error generating analysis: '' @ err_message e)),
                     data := Some \<lparr>p_transcript = t,
                                   p_analysis = generateFallbackAnalysis
                                     (display_title (fst (getYoutubeMetadata w videoUrl)) videoId)\<rparr>\<rparr>)
                 None"
proof -
  let ?m = "fst (getYoutubeMetadata w videoUrl)"
  from thr have f: "supadata_fetch w (supadata_url videoId) (supadata_headers key)
             = Responded st (Inr (Success txt segs))" and ok: "response_ok st"
    and g: "groq_create w (groq_messages txt) (js ''llama3-70b-8192'') = GroqThrows e"
    by (auto simp: summarization_throws_def)
  obtain t where t: "transcript_try w key videoUrl videoId ?m = Inr t" "content t = txt"
      "segments t = (case segs of None \<Rightarrow> [] | Some sg \<Rightarrow> sg)" "tr_error t = None"
    using transcript_try_success[OF f ok] by blast
  have g': "groq_create w (groq_messages (content t)) (js ''llama3-70b-8192'') = GroqThrows e"
    using g t(2) by simp
  have "fst (POST w (Inr b)) = fst (groq_stage w t ?m videoId (date_now_start w) (random_id w))"
    by (simp add: accepted_POST[OF acc] transcript_stage_success[OF t(1)])
  then show ?thesis using t groq_stage_throws[OF g'] by simp
qed

lemma POST_failure:
  assumes acc: "accepted w b videoUrl videoId key"
    and fl: "transcript_fetch_fails w key videoId st parsed msg"
  shows "fst (POST w (Inr b)) =
           NextResponse_json
              ((obj False)
                 \<lparr>error := Some (ErrorText (js ''Failed to fetch transcript: ''
                                              @ upstream_message st msg)),
                  data := Some \<lparr>p_transcript =
                                  fallbackTranscript videoUrl videoId
                                    (fst (getYoutubeMetadata w videoUrl))
                                    (new_Error w (upstream_message st msg)),
                                p_analysis = generateFallbackAnalysis
                                  (display_title (fst (getYoutubeMetadata w videoUrl)) videoId)\<rparr>\<rparr>)
              None"
  by (simp add: accepted_POST[OF acc] transcript_stage_failure[OF transcript_try_fails[OF fl]]
      new_Error_def)

lemma groq_create_irrelevant:
  "getYoutubeMetadata (w\<lparr>groq_create := g\<rparr>) v = getYoutubeMetadata w v"
  "transcript_try (w\<lparr>groq_create := g\<rparr>) key v videoId m = transcript_try w key v videoId m"
  "accepted (w\<lparr>groq_create := g\<rparr>) b v videoId key = accepted w b v videoId key"
  by (auto simp: getYoutubeMetadata_def getYoutubeMetadata_try_def transcript_try_def
      accepted_def new_Error_def Let_def
      split: option.splits fetched.splits sum.splits supadata_body.splits)

lemma POST_full_success:
  assumes acc: "accepted w b videoUrl videoId key"
    and t: "transcript_try w key videoUrl videoId (fst (getYoutubeMetadata w videoUrl)) = Inr t"
    and g: "groq_create w (groq_messages (content t)) (js ''llama3-70b-8192'') = GroqCompletion cs"
  shows "\<exists>a. fst (POST w (Inr b)) =
           NextResponse_json
              ((obj True)
                 \<lparr>requestId := Some (random_id w),
                  processingTime := Some (date_now_end w - date_now_start w),
                  data := Some \<lparr>p_transcript = t, p_analysis = a\<rparr>\<rparr>)
              None"
proof -
  obtain a where "groq_stage w t (fst (getYoutubeMetadata w videoUrl)) videoId
                    (date_now_start w) (random_id w) =
           (NextResponse_json
              ((obj True)
                 \<lparr>requestId := Some (random_id w),
                  processingTime := Some (date_now_end w - date_now_start w),
                  data := Some \<lparr>p_transcript = t, p_analysis = a\<rparr>\<rparr>)
              None,
            [GroqChat (groq_messages (content t)) (js ''llama3-70b-8192'')])"
    using groq_stage_completes[OF g] by blast
  then have "fst (POST w (Inr b)) =
           NextResponse_json
              ((obj True)
                 \<lparr>requestId := Some (random_id w),
                  processingTime := Some (date_now_end w - date_now_start w),
                  data := Some \<lparr>p_transcript = t, p_analysis = a\<rparr>\<rparr>)
              None"
    by (simp add: accepted_POST[OF acc] transcript_stage_success[OF t])
  then show ?thesis by blast
qed

lemma display_title_cases:
  "display_title m videoId =
     (case m of None \<Rightarrow> js ''Video '' @ videoId
      | Some md \<Rightarrow> (case title md of None \<Rightarrow> js ''Video '' @ videoId
                    | Some t \<Rightarrow> if t = [] then js ''Video '' @ videoId else t))"
  by (simp add: display_title_def or_else_def split: option.splits)

subsection \<open>Partial success\<close>

text \<open>
  Claim C1, as amended. For every request that passes the checks, whose transcript is
  retrieved and whose summarization call throws, the response has \<open>success\<close> true and
  \<open>partial\<close> true; its data holds the transcript built from what was fetched (the text
  and the segments as they came, no error descriptor), the very transcript the
  full-success response would carry, and the static analysis: a framework titled
  "Framework for " followed by the title, with the single component "Summary", the fixed
  summary, the two fixed takeaways and the one fixed topic. The title is the metadata
  title when there is one and it is not empty, and "Video " followed by the identifier
  otherwise.
\<close>

theorem POST_partial_success:
  assumes acc: "accepted w b videoUrl videoId key"
    and thr: "summarization_throws w key videoId st txt segs e"
  shows "success (body (fst (POST w (Inr b)))) \<and>
         partial (body (fst (POST w (Inr b)))) = Some True \<and>
         (\<exists>p. data (body (fst (POST w (Inr b)))) = Some p \<and>
              transcript_try w key videoUrl videoId (fst (getYoutubeMetadata w videoUrl))
                = Inr (p_transcript p) \<and>
              content (p_transcript p) = txt \<and>
              segments (p_transcript p) = (case segs of None \<Rightarrow> [] | Some sg \<Rightarrow> sg) \<and>
              tr_error (p_transcript p) = None \<and>
              (\<forall>cs. \<exists>p'. data (body (fst (POST (w\<lparr>groq_create := \<lambda>_ _. GroqCompletion cs\<rparr>) (Inr b))))
                             = Some p' \<and> p_transcript p' = p_transcript p) \<and>
              p_analysis p =
                \<lparr>framework =
                   \<lparr>fw_title = js ''Framework for '' @
                      (case fst (getYoutubeMetadata w videoUrl) of
                         None \<Rightarrow> js ''Video '' @ videoId
                       | Some md \<Rightarrow>
                           (case title md of
                              None \<Rightarrow> js ''Video '' @ videoId
                            | Some t \<Rightarrow> if t = [] then js ''Video '' @ videoId else t)),
                    components =
                      [\<lparr>heading = js ''Summary'',
                        comp_description =
                          js ''A summary of the video could not be generated automatically.''\<rparr>]\<rparr>,
                 summary = js ''Unable to generate a summary for this video.'',
                 keyTakeaways =
                   [js ''Automatic key takeaways could not be generated.'',
                    js ''Please watch the video for the main points.''],
                 topics =
                   [\<lparr>topic_title = js ''Video Content'',
                     topic_description = js ''The main content of the video.''\<rparr>]\<rparr>)"
proof -
  let ?m = "fst (getYoutubeMetadata w videoUrl)"
  obtain t where t: "transcript_try w key videoUrl videoId ?m = Inr t" "content t = txt"
      "segments t = (case segs of None \<Rightarrow> [] | Some sg \<Rightarrow> sg)" "tr_error t = None"
    and r: "fst (POST w (Inr b)) =
               NextResponse_json
                 ((obj True)
                    \<lparr>partial := Some True,
                     error := Some (ErrorAnalysis (js ''Error generating analysis: '' @ err_message e)),
                     data := Some \<lparr>p_transcript = t,
                                   p_analysis = generateFallbackAnalysis (display_title ?m videoId)\<rparr>\<rparr>)
                 None"
    using POST_partial[OF acc thr] by blast
  have same: "\<exists>p'. data (body (fst (POST (w\<lparr>groq_create := \<lambda>_ _. GroqCompletion cs\<rparr>) (Inr b))))
                             = Some p' \<and> p_transcript p' = t" for cs
  proof -
    let ?w = "w\<lparr>groq_create := \<lambda>_ _. GroqCompletion cs\<rparr>"
    have acc': "accepted ?w b videoUrl videoId key" using acc by (simp add: groq_create_irrelevant)
    have t': "transcript_try ?w key videoUrl videoId (fst (getYoutubeMetadata ?w videoUrl)) = Inr t"
      using t(1) by (simp add: groq_create_irrelevant)
    have g': "groq_create ?w (groq_messages (content t)) (js ''llama3-70b-8192'') = GroqCompletion cs"
      by simp
    obtain a where "fst (POST ?w (Inr b)) =
           NextResponse_json
              ((obj True)
                 \<lparr>requestId := Some (random_id ?w),
                  processingTime := Some (date_now_end ?w - date_now_start ?w),
                  data := Some \<lparr>p_transcript = t, p_analysis = a\<rparr>\<rparr>)
              None"
      using POST_full_success[OF acc' t' g'] by blast
    then show ?thesis by (simp add: NextResponse_json_def)
  qed
  have "success (body (fst (POST w (Inr b))))" and "partial (body (fst (POST w (Inr b)))) = Some True"
    and "data (body (fst (POST w (Inr b)))) =
           Some \<lparr>p_transcript = t, p_analysis = generateFallbackAnalysis (display_title ?m videoId)\<rparr>"
    by (simp_all add: r NextResponse_json_def obj_def)
  then show ?thesis using t same
    by (simp add: generateFallbackAnalysis_def display_title_cases[of ?m videoId])
qed

text \<open>The theorem in the example world, where there is no metadata and the summarization
  throws, and in the world whose metadata has a title.\<close>

lemma example_id: "extractVideoId (JStr (js ''v/abcdefghijk'')) = Some (js ''abcdefghijk'')"
proof -
  have m: "regExp_match (js ''v/abcdefghijk'') = Some (js ''abcdefghijk'')"
    by (simp add: regex_eval)
  have "js ''v/abcdefghijk'' \<noteq> []" and "length (js ''abcdefghijk'') = 11"
    by (simp_all add: js_def)
  then show ?thesis using m by auto
qed

lemma example_accepted:
  "accepted example_world example_body (JStr (js ''v/abcdefghijk'')) (js ''abcdefghijk'') (js ''sk'')"
proof -
  have "get_property example_body (js ''videoUrl'') = Some (JStr (js ''v/abcdefghijk''))"
    by (simp add: example_body_def get_property_def)
  moreover have "SUPADATA_API_KEY example_world = Some (js ''sk'')" and "js ''sk'' \<noteq> []"
    and "\<not> key_missing (GROQ_API_KEY example_world)"
    by (simp_all add: example_world_def key_missing_def js_def)
  ultimately show ?thesis unfolding accepted_def using example_id by blast
qed

lemma getYoutubeMetadata_oembed:
  "oembed_fetch w' = oembed_fetch w \<Longrightarrow> getYoutubeMetadata w' v = getYoutubeMetadata w v"
  by (auto simp: getYoutubeMetadata_def getYoutubeMetadata_try_def Let_def split: option.splits)

lemma example_metadata:
  "fst (getYoutubeMetadata example_world (JStr (js ''v/abcdefghijk''))) = None"
  "fst (getYoutubeMetadata titled_world (JStr (js ''v/abcdefghijk''))) =
     Some \<lparr>title = Some (js ''My talk''), author_name = None, length_seconds = None,
           thumbnail_url = None, description = None\<rparr>"
  "fst (getYoutubeMetadata empty_title_world (JStr (js ''v/abcdefghijk''))) =
     Some \<lparr>title = Some [], author_name = None, length_seconds = None,
           thumbnail_url = None, description = None\<rparr>"
  unfolding getYoutubeMetadata_def getYoutubeMetadata_try_def
  by (simp_all only: example_id)
     (simp_all add: example_world_def titled_world_def empty_title_world_def response_ok_def Let_def)

theorem POST_partial_success_witness:
  "accepted example_world example_body (JStr (js ''v/abcdefghijk'')) (js ''abcdefghijk'') (js ''sk'') \<and>
   summarization_throws example_world (js ''sk'') (js ''abcdefghijk'') 200 (js ''hello'') None
     example_error \<and>
   success (body (fst (POST example_world (Inr example_body)))) \<and>
   partial (body (fst (POST example_world (Inr example_body)))) = Some True \<and>
   map_option (content \<circ> p_transcript) (data (body (fst (POST example_world (Inr example_body)))))
     = Some (js ''hello'') \<and>
   map_option p_analysis (data (body (fst (POST example_world (Inr example_body))))) =
     Some \<lparr>framework =
             \<lparr>fw_title = js ''Framework for Video abcdefghijk'',
              components =
                [\<lparr>heading = js ''Summary'',
                  comp_description =
                    js ''A summary of the video could not be generated automatically.''\<rparr>]\<rparr>,
           summary = js ''Unable to generate a summary for this video.'',
           keyTakeaways =
             [js ''Automatic key takeaways could not be generated.'',
              js ''Please watch the video for the main points.''],
           topics =
             [\<lparr>topic_title = js ''Video Content'',
               topic_description = js ''The main content of the video.''\<rparr>]\<rparr> \<and>
   map_option (fw_title \<circ> framework \<circ> p_analysis)
     (data (body (fst (POST titled_world (Inr example_body)))))
     = Some (js ''Framework for My talk'')"
proof -
  have s: "summarization_throws example_world (js ''sk'') (js ''abcdefghijk'') 200 (js ''hello'') None
     example_error"
    by (simp add: summarization_throws_def example_world_def response_ok_def)
  have a2: "accepted titled_world example_body (JStr (js ''v/abcdefghijk'')) (js ''abcdefghijk'')
              (js ''sk'')"
    using example_accepted by (simp add: accepted_def titled_world_def)
  have s2: "summarization_throws titled_world (js ''sk'') (js ''abcdefghijk'') 200 (js ''hello'') None
     example_error"
    by (simp add: summarization_throws_def titled_world_def example_world_def response_ok_def)
  have strs: "js ''Framework for '' @ js ''Video '' @ js ''abcdefghijk''
                = js ''Framework for Video abcdefghijk''"
    "js ''Framework for '' @ js ''My talk'' = js ''Framework for My talk''"
    "js ''My talk'' \<noteq> []"
    by (simp_all add: js_def)
  have r1: "success (body (fst (POST example_world (Inr example_body)))) \<and>
   partial (body (fst (POST example_world (Inr example_body)))) = Some True \<and>
   map_option (content \<circ> p_transcript) (data (body (fst (POST example_world (Inr example_body)))))
     = Some (js ''hello'') \<and>
   map_option p_analysis (data (body (fst (POST example_world (Inr example_body))))) =
     Some \<lparr>framework =
             \<lparr>fw_title = js ''Framework for Video abcdefghijk'',
              components =
                [\<lparr>heading = js ''Summary'',
                  comp_description =
                    js ''A summary of the video could not be generated automatically.''\<rparr>]\<rparr>,
           summary = js ''Unable to generate a summary for this video.'',
           keyTakeaways =
             [js ''Automatic key takeaways could not be generated.'',
              js ''Please watch the video for the main points.''],
           topics =
             [\<lparr>topic_title = js ''Video Content'',
               topic_description = js ''The main content of the video.''\<rparr>]\<rparr>"
    using POST_partial_success[OF example_accepted s] strs(1)
    by (auto simp: example_metadata)
  have r2: "map_option (fw_title \<circ> framework \<circ> p_analysis)
     (data (body (fst (POST titled_world (Inr example_body)))))
     = Some (js ''Framework for My talk'')"
    using POST_partial_success[OF a2 s2] strs(2,3)
    by (auto simp: example_metadata)
  show ?thesis using example_accepted s r1 r2 by blast
qed

text \<open>
  Claim C1 as it was stated takes the metadata title whenever it is present. Where the
  metadata has a title and the title is empty, the analysis is built from "Video "
  followed by the identifier, not from the title.
\<close>

theorem POST_partial_success_empty_title:
  "Option.bind (fst (getYoutubeMetadata empty_title_world (JStr (js ''v/abcdefghijk'')))) title
     = Some [] \<and>
   partial (body (fst (POST empty_title_world (Inr example_body)))) = Some True \<and>
   map_option (fw_title \<circ> framework \<circ> p_analysis)
     (data (body (fst (POST empty_title_world (Inr example_body)))))
     = Some (js ''Framework for Video abcdefghijk'') \<and>
   js ''Framework for Video abcdefghijk'' \<noteq> js ''Framework for '' @ []"
proof -
  have a: "accepted empty_title_world example_body (JStr (js ''v/abcdefghijk'')) (js ''abcdefghijk'')
              (js ''sk'')"
    using example_accepted by (simp add: accepted_def empty_title_world_def)
  have s: "summarization_throws empty_title_world (js ''sk'') (js ''abcdefghijk'') 200 (js ''hello'')
     None example_error"
    by (simp add: summarization_throws_def empty_title_world_def example_world_def response_ok_def)
  obtain t where "fst (POST empty_title_world (Inr example_body)) =
               NextResponse_json
                 ((obj True)
                    \<lparr>partial := Some True,
                     error := Some (ErrorAnalysis (js ''Error generating analysis: ''
                                                   @ err_message example_error)),
                     data := Some \<lparr>p_transcript = t,
                                   p_analysis = generateFallbackAnalysis
                                     (display_title (fst (getYoutubeMetadata empty_title_world
                                        (JStr (js ''v/abcdefghijk'')))) (js ''abcdefghijk''))\<rparr>\<rparr>)
                 None"
    using POST_partial[OF a s] by blast
  then have r: "partial (body (fst (POST empty_title_world (Inr example_body)))) = Some True \<and>
   map_option (fw_title \<circ> framework \<circ> p_analysis)
     (data (body (fst (POST empty_title_world (Inr example_body)))))
     = Some (js ''Framework for '' @ js ''Video '' @ js ''abcdefghijk'')"
    by (simp add: NextResponse_json_def obj_def generateFallbackAnalysis_def display_title_def
        or_else_def example_metadata)
  have strs: "js ''Framework for '' @ js ''Video '' @ js ''abcdefghijk''
                = js ''Framework for Video abcdefghijk''"
    "js ''Framework for Video abcdefghijk'' \<noteq> js ''Framework for '' @ []"
    by (simp_all add: js_def)
  have m: "Option.bind (fst (getYoutubeMetadata empty_title_world (JStr (js ''v/abcdefghijk'')))) title
     = Some []"
    by (simp add: example_metadata)
  show ?thesis using r strs m by simp
qed

subsection \<open>Transcript failure\<close>

text \<open>
  Claim C2, as amended. For every request that passes the checks and whose transcript
  fetch fails, by a status that is not 2xx or by a body whose success flag is false, the
  response has \<open>success\<close> false; its data holds the placeholder transcript, whose error
  descriptor has the code "TRANSCRIPT_FETCH_ERROR" and as message, for a status that is
  not 2xx, "Supadata API returned status: " followed by the status, and for a 2xx answer
  with a false flag the provider's message, or "Unknown error from Supadata API" when
  there is none or it is empty; together with the static analysis of the title.
\<close>

theorem POST_transcript_failure:
  assumes acc: "accepted w b videoUrl videoId key"
    and fl: "transcript_fetch_fails w key videoId st parsed msg"
  shows "\<not> success (body (fst (POST w (Inr b)))) \<and>
         (\<exists>p. data (body (fst (POST w (Inr b)))) = Some p \<and>
              tr_error (p_transcript p) =
                Some \<lparr>te_message =
                        (if \<not> (200 \<le> st \<and> st \<le> 299)
                         then js ''Supadata API returned status: '' @ show_nat st
                         else (case msg of
                                 None \<Rightarrow> js ''Unknown error from Supadata API''
                               | Some m \<Rightarrow>
                                   if m = [] then js ''Unknown error from Supadata API'' else m)),
                      te_code = js ''TRANSCRIPT_FETCH_ERROR''\<rparr> \<and>
              content (p_transcript p) = js ''Could not fetch transcript for video '' @ videoId \<and>
              segments (p_transcript p) = [] \<and>
              p_analysis p =
                \<lparr>framework =
                   \<lparr>fw_title = js ''Framework for '' @
                      (case fst (getYoutubeMetadata w videoUrl) of
                         None \<Rightarrow> js ''Video '' @ videoId
                       | Some md \<Rightarrow>
                           (case title md of
                              None \<Rightarrow> js ''Video '' @ videoId
                            | Some t \<Rightarrow> if t = [] then js ''Video '' @ videoId else t)),
                    components =
                      [\<lparr>heading = js ''Summary'',
                        comp_description =
                          js ''A summary of the video could not be generated automatically.''\<rparr>]\<rparr>,
                 summary = js ''Unable to generate a summary for this video.'',
                 keyTakeaways =
                   [js ''Automatic key takeaways could not be generated.'',
                    js ''Please watch the video for the main points.''],
                 topics =
                   [\<lparr>topic_title = js ''Video Content'',
                     topic_description = js ''The main content of the video.''\<rparr>]\<rparr>)"
proof -
  have um: "upstream_message st msg =
              (if \<not> (200 \<le> st \<and> st \<le> 299)
               then js ''Supadata API returned status: '' @ show_nat st
               else (case msg of
                       None \<Rightarrow> js ''Unknown error from Supadata API''
                     | Some m \<Rightarrow> if m = [] then js ''Unknown error from Supadata API'' else m))"
    by (simp add: upstream_message_def response_ok_def or_else_def split: option.splits)
  show ?thesis
    unfolding um[symmetric]
    by (simp add: POST_failure[OF acc fl] NextResponse_json_def obj_def fallbackTranscript_def
        new_Error_def generateFallbackAnalysis_def
        display_title_cases[of "fst (getYoutubeMetadata w videoUrl)" videoId])
qed

text \<open>The theorem in the world whose transcript provider answers 500, and in the world
  whose provider answers 200 with a false flag and the message "quota exceeded".\<close>

lemma show_nat_500: "show_nat 500 = js ''500''"
  by (simp add: show_nat.simps digit_unit_def js_def)

theorem POST_transcript_failure_witness:
  "accepted failing_world example_body (JStr (js ''v/abcdefghijk'')) (js ''abcdefghijk'') (js ''sk'') \<and>
   transcript_fetch_fails failing_world (js ''sk'') (js ''abcdefghijk'') 500 (Inl example_error) None \<and>
   \<not> success (body (fst (POST failing_world (Inr example_body)))) \<and>
   Option.bind (map_option p_transcript (data (body (fst (POST failing_world (Inr example_body))))))
     tr_error
     = Some \<lparr>te_message = js ''Supadata API returned status: 500'',
             te_code = js ''TRANSCRIPT_FETCH_ERROR''\<rparr> \<and>
   map_option (fw_title \<circ> framework \<circ> p_analysis)
     (data (body (fst (POST failing_world (Inr example_body)))))
     = Some (js ''Framework for Video abcdefghijk'') \<and>
   transcript_fetch_fails refusing_world (js ''sk'') (js ''abcdefghijk'') 200
     (Inr (Failure (Some (js ''quota exceeded'')))) (Some (js ''quota exceeded'')) \<and>
   \<not> success (body (fst (POST refusing_world (Inr example_body)))) \<and>
   Option.bind (map_option p_transcript (data (body (fst (POST refusing_world (Inr example_body))))))
     tr_error
     = Some \<lparr>te_message = js ''quota exceeded'', te_code = js ''TRANSCRIPT_FETCH_ERROR''\<rparr>"
proof -
  have a: "accepted failing_world example_body (JStr (js ''v/abcdefghijk'')) (js ''abcdefghijk'') (js ''sk'')"
    using example_accepted by (simp add: accepted_def failing_world_def)
  have f: "transcript_fetch_fails failing_world (js ''sk'') (js ''abcdefghijk'') 500
             (Inl example_error) None"
    by (simp add: transcript_fetch_fails_def failing_world_def response_ok_def)
  have a2: "accepted refusing_world example_body (JStr (js ''v/abcdefghijk'')) (js ''abcdefghijk'')
              (js ''sk'')"
    using example_accepted by (simp add: accepted_def refusing_world_def)
  have f2: "transcript_fetch_fails refusing_world (js ''sk'') (js ''abcdefghijk'') 200
     (Inr (Failure (Some (js ''quota exceeded'')))) (Some (js ''quota exceeded''))"
    by (simp add: transcript_fetch_fails_def refusing_world_def)
  have md: "fst (getYoutubeMetadata failing_world (JStr (js ''v/abcdefghijk''))) = None"
    using example_metadata(1)
      getYoutubeMetadata_oembed[of failing_world example_world "JStr (js ''v/abcdefghijk'')"]
    by (simp add: failing_world_def)
  have strs: "js ''Supadata API returned status: '' @ show_nat 500
                = js ''Supadata API returned status: 500''"
    "js ''Framework for '' @ js ''Video '' @ js ''abcdefghijk''
                = js ''Framework for Video abcdefghijk''"
    "js ''quota exceeded'' \<noteq> []"
    by (simp_all add: show_nat_500) (simp_all add: js_def)
  have r1: "\<not> success (body (fst (POST failing_world (Inr example_body)))) \<and>
   Option.bind (map_option p_transcript (data (body (fst (POST failing_world (Inr example_body))))))
     tr_error
     = Some \<lparr>te_message = js ''Supadata API returned status: 500'',
             te_code = js ''TRANSCRIPT_FETCH_ERROR''\<rparr> \<and>
   map_option (fw_title \<circ> framework \<circ> p_analysis)
     (data (body (fst (POST failing_world (Inr example_body)))))
     = Some (js ''Framework for Video abcdefghijk'')"
    using POST_transcript_failure[OF a f] strs(1,2) by (auto simp: md)
  have r2: "\<not> success (body (fst (POST refusing_world (Inr example_body)))) \<and>
   Option.bind (map_option p_transcript (data (body (fst (POST refusing_world (Inr example_body))))))
     tr_error
     = Some \<lparr>te_message = js ''quota exceeded'', te_code = js ''TRANSCRIPT_FETCH_ERROR''\<rparr>"
    using POST_transcript_failure[OF a2 f2] strs(3) by auto
  show ?thesis using a f f2 r1 r2 by blast
qed

text \<open>
  Claim C2 as it was stated lets the descriptor carry the upstream error message in both
  cases. Where the provider answers 500 with a body whose message is "quota exceeded",
  the body is never read: the descriptor's message is the handler's own status line.
\<close>

theorem POST_transcript_failure_status_line:
  "supadata_fetch overloaded_world (supadata_url (js ''abcdefghijk'')) (supadata_headers (js ''sk''))
     = Responded 500 (Inr (Failure (Some (js ''quota exceeded'')))) \<and>
   Option.bind (map_option p_transcript (data (body (fst (POST overloaded_world (Inr example_body))))))
     tr_error
     = Some \<lparr>te_message = js ''Supadata API returned status: 500'',
             te_code = js ''TRANSCRIPT_FETCH_ERROR''\<rparr> \<and>
   js ''Supadata API returned status: 500'' \<noteq> js ''quota exceeded''"
proof -
  have a: "accepted overloaded_world example_body (JStr (js ''v/abcdefghijk'')) (js ''abcdefghijk'')
              (js ''sk'')"
    using example_accepted by (simp add: accepted_def overloaded_world_def)
  have sf: "supadata_fetch overloaded_world (supadata_url (js ''abcdefghijk''))
      (supadata_headers (js ''sk'')) = Responded 500 (Inr (Failure (Some (js ''quota exceeded''))))"
    by (simp add: overloaded_world_def)
  have f: "transcript_fetch_fails overloaded_world (js ''sk'') (js ''abcdefghijk'') 500
             (Inr (Failure (Some (js ''quota exceeded'')))) (Some (js ''quota exceeded''))"
    by (simp add: transcript_fetch_fails_def sf)
  have um: "upstream_message 500 (Some (js ''quota exceeded''))
              = js ''Supadata API returned status: 500''"
    by (simp add: upstream_message_def response_ok_def show_nat_500) (simp add: js_def)
  have r: "Option.bind (map_option p_transcript
               (data (body (fst (POST overloaded_world (Inr example_body)))))) tr_error
     = Some \<lparr>te_message = js ''Supadata API returned status: 500'',
             te_code = js ''TRANSCRIPT_FETCH_ERROR''\<rparr>"
    by (simp add: POST_failure[OF a f] NextResponse_json_def obj_def fallbackTranscript_def
        new_Error_def um)
  have ne: "js ''Supadata API returned status: 500'' \<noteq> js ''quota exceeded''"
    by (simp add: js_def)
  show ?thesis using sf r ne by blast
qed

subsection \<open>Correlation identifier and timing\<close>

lemma succeeding_accepted:
  "accepted succeeding_world example_body (JStr (js ''v/abcdefghijk'')) (js ''abcdefghijk'') (js ''sk'')"
  using example_accepted by (simp add: accepted_def succeeding_world_def)

lemma failing_accepted:
  "accepted failing_world example_body (JStr (js ''v/abcdefghijk'')) (js ''abcdefghijk'') (js ''sk'')"
  using example_accepted by (simp add: accepted_def failing_world_def)

text \<open>
  Claim C3 says that the responses of the partial-success tier and of the
  transcript-failure tier carry the request identifier and the processing time, as the
  full-success response does. The handler builds neither property into these two
  responses: at the request of the example, a transcript provider answering 500 gives a
  body without \<open>requestId\<close> and \<open>processingTime\<close>, and so does a throwing summarization, while
  the full-success response of the same request has both.
\<close>

theorem fallback_tiers_without_requestId:
  "map_option (\<lambda>p. tr_error (p_transcript p))
     (data (body (fst (POST failing_world (Inr example_body)))))
     = Some (Some \<lparr>te_message = js ''Supadata API returned status: 500'',
                   te_code = js ''TRANSCRIPT_FETCH_ERROR''\<rparr>) \<and>
   requestId (body (fst (POST failing_world (Inr example_body)))) = None \<and>
   processingTime (body (fst (POST failing_world (Inr example_body)))) = None \<and>
   partial (body (fst (POST example_world (Inr example_body)))) = Some True \<and>
   requestId (body (fst (POST example_world (Inr example_body)))) = None \<and>
   processingTime (body (fst (POST example_world (Inr example_body)))) = None \<and>
   requestId (body (fst (POST succeeding_world (Inr example_body)))) = Some (js ''ab12cd34'') \<and>
   processingTime (body (fst (POST succeeding_world (Inr example_body)))) = Some 250"
proof -
  have f: "transcript_fetch_fails failing_world (js ''sk'') (js ''abcdefghijk'') 500
             (Inl example_error) None"
    by (simp add: transcript_fetch_fails_def failing_world_def response_ok_def)
  have s: "summarization_throws example_world (js ''sk'') (js ''abcdefghijk'') 200 (js ''hello'') None
     example_error"
    by (simp add: summarization_throws_def example_world_def response_ok_def)
  have um: "upstream_message 500 None = js ''Supadata API returned status: 500''"
    by (simp add: upstream_message_def response_ok_def show_nat_500) (simp add: js_def)
  have r1: "map_option (\<lambda>p. tr_error (p_transcript p))
     (data (body (fst (POST failing_world (Inr example_body)))))
     = Some (Some \<lparr>te_message = js ''Supadata API returned status: 500'',
                   te_code = js ''TRANSCRIPT_FETCH_ERROR''\<rparr>) \<and>
   requestId (body (fst (POST failing_world (Inr example_body)))) = None \<and>
   processingTime (body (fst (POST failing_world (Inr example_body)))) = None"
    by (simp add: POST_failure[OF failing_accepted f] NextResponse_json_def obj_def
        fallbackTranscript_def new_Error_def um)
  obtain t where "fst (POST example_world (Inr example_body)) =
               NextResponse_json
                 ((obj True)
                    \<lparr>partial := Some True,
                     error := Some (ErrorAnalysis (js ''Error generating analysis: ''
                                                   @ err_message example_error)),
                     data := Some \<lparr>p_transcript = t,
                                   p_analysis = generateFallbackAnalysis
                                     (display_title (fst (getYoutubeMetadata example_world
                                        (JStr (js ''v/abcdefghijk'')))) (js ''abcdefghijk''))\<rparr>\<rparr>)
                 None"
    using POST_partial[OF example_accepted s] by blast
  then have r2: "partial (body (fst (POST example_world (Inr example_body)))) = Some True \<and>
   requestId (body (fst (POST example_world (Inr example_body)))) = None \<and>
   processingTime (body (fst (POST example_world (Inr example_body)))) = None"
    by (simp add: NextResponse_json_def obj_def)
  have f3: "supadata_fetch succeeding_world (supadata_url (js ''abcdefghijk'')) (supadata_headers (js ''sk''))
             = Responded 200 (Inr (Success (js ''hello'') None))" and ok: "response_ok 200"
    by (simp_all add: succeeding_world_def example_world_def response_ok_def)
  obtain t3 where t3: "transcript_try succeeding_world (js ''sk'') (JStr (js ''v/abcdefghijk''))
       (js ''abcdefghijk'') (fst (getYoutubeMetadata succeeding_world (JStr (js ''v/abcdefghijk'')))) = Inr t3"
    using transcript_try_success[OF f3 ok] by blast
  have g3: "groq_create succeeding_world (groq_messages (content t3)) (js ''llama3-70b-8192'')
              = GroqCompletion [Some (js ''fine'')]"
    by (simp add: succeeding_world_def)
  obtain a where "fst (POST succeeding_world (Inr example_body)) =
           NextResponse_json
              ((obj True)
                 \<lparr>requestId := Some (random_id succeeding_world),
                  processingTime := Some (date_now_end succeeding_world - date_now_start succeeding_world),
                  data := Some \<lparr>p_transcript = t3, p_analysis = a\<rparr>\<rparr>)
              None"
    using POST_full_success[OF succeeding_accepted t3 g3] by blast
  then have r3: "requestId (body (fst (POST succeeding_world (Inr example_body)))) = Some (js ''ab12cd34'') \<and>
   processingTime (body (fst (POST succeeding_world (Inr example_body)))) = Some 250"
    by (simp add: NextResponse_json_def obj_def succeeding_world_def example_world_def)
  show ?thesis using r1 r2 r3 by blast
qed

subsection \<open>Missing configuration\<close>





subsection \<open>Metadata failures\<close>

lemma transcript_stage_shape:
  "\<exists>p. data (body (fst (transcript_stage w key videoUrl videoId m t0 rid))) = Some p \<and>
       status (fst (transcript_stage w key videoUrl videoId m t0 rid)) = 200 \<and>
       vi_title (videoInfo (p_transcript p)) = display_title m videoId \<and>
       vi_author (videoInfo (p_transcript p)) = or_else (Option.bind m author_name) (js ''Unknown'') \<and>
       vi_thumbnailUrl (videoInfo (p_transcript p)) =
         or_else (Option.bind m thumbnail_url) (default_thumbnail videoId)"
proof (cases "transcript_try w key videoUrl videoId m")
  case (Inl e)
  show ?thesis
    by (simp add: transcript_stage_failure[OF Inl] NextResponse_json_def obj_def
        fallbackTranscript_def)
next
  case (Inr t)
  have vi: "vi_title (videoInfo t) = display_title m videoId \<and>
       vi_author (videoInfo t) = or_else (Option.bind m author_name) (js ''Unknown'') \<and>
       vi_thumbnailUrl (videoInfo t) =
         or_else (Option.bind m thumbnail_url) (default_thumbnail videoId)"
    using Inr
    by (auto simp: transcript_try_def split: fetched.splits if_splits sum.splits supadata_body.splits)
  show ?thesis
  proof (cases "groq_create w (groq_messages (content t)) (js ''llama3-70b-8192'')")
    case (GroqThrows e)
    show ?thesis using vi
      by (simp add: transcript_stage_success[OF Inr] groq_stage_throws[OF GroqThrows]
          NextResponse_json_def obj_def)
  next
    case (GroqCompletion cs)
    obtain a where "groq_stage w t m videoId t0 rid =
           (NextResponse_json
              ((obj True)
                 \<lparr>requestId := Some rid,
                  processingTime := Some (date_now_end w - t0),
                  data := Some \<lparr>p_transcript = t, p_analysis = a\<rparr>\<rparr>)
              None,
            [GroqChat (groq_messages (content t)) (js ''llama3-70b-8192'')])"
      using groq_stage_completes[OF GroqCompletion] by blast
    then show ?thesis using vi
      by (simp add: transcript_stage_success[OF Inr] NextResponse_json_def obj_def)
  qed
qed



subsection \<open>Status codes\<close>

lemma transcript_stage_status:
  "status (fst (transcript_stage w key videoUrl videoId m t0 rid)) = 200"
  using transcript_stage_shape[of w key videoUrl videoId m t0 rid] by blast

lemma POST_try_responses:
  "POST_try w req t0 rid = (Inr r, c) \<Longrightarrow> status r \<noteq> 200 \<Longrightarrow>
   r = missing_videoUrl_response \<or> r = invalid_url_response \<or>
   r = missing_supadata_key_response \<or> r = missing_groq_key_response"
  unfolding POST_try_def
  by (auto simp: split_beta Let_def transcript_stage_status
      split: sum.splits option.splits if_splits)

text \<open>
  Claim C9. A request that ends in the partial-success tier or in the transcript-failure
  tier is answered with status 200, in the second case with \<open>success\<close> false; and a
  response whose status is not 200 is one of the missing-parameter, invalid-URL and
  missing-configuration responses or the response of the outer \<open>catch\<close>.
\<close>

theorem POST_status_codes:
  "(accepted w b videoUrl videoId key \<and> summarization_throws w key videoId st txt segs e
      \<longrightarrow> status (fst (POST w (Inr b))) = 200)
   \<and> (accepted w b videoUrl videoId key \<and> transcript_fetch_fails w key videoId st' parsed msg
      \<longrightarrow> status (fst (POST w (Inr b))) = 200 \<and> \<not> success (body (fst (POST w (Inr b)))))
   \<and> (status (fst (POST w req)) \<noteq> 200
      \<longrightarrow> fst (POST w req) = missing_videoUrl_response \<or>
          fst (POST w req) = invalid_url_response \<or>
          fst (POST w req) = missing_supadata_key_response \<or>
          fst (POST w req) = missing_groq_key_response \<or>
          (\<exists>err. fst (POST w req) = server_error_response w err (date_now_start w) (random_id w)))"
proof -
  have a: "status (fst (POST w (Inr b))) = 200"
    if "accepted w b videoUrl videoId key \<and> summarization_throws w key videoId st txt segs e"
  proof -
    from that have acc: "accepted w b videoUrl videoId key" by simp
    show ?thesis by (simp add: accepted_POST[OF acc] transcript_stage_status)
  qed
  have b: "status (fst (POST w (Inr b))) = 200 \<and> \<not> success (body (fst (POST w (Inr b))))"
    if "accepted w b videoUrl videoId key \<and> transcript_fetch_fails w key videoId st' parsed msg"
  proof -
    from that have acc: "accepted w b videoUrl videoId key"
      and fl: "transcript_fetch_fails w key videoId st' parsed msg" by simp_all
    show ?thesis by (simp add: POST_failure[OF acc fl] NextResponse_json_def obj_def)
  qed
  have c: "fst (POST w req) = missing_videoUrl_response \<or>
          fst (POST w req) = invalid_url_response \<or>
          fst (POST w req) = missing_supadata_key_response \<or>
          fst (POST w req) = missing_groq_key_response \<or>
          (\<exists>err. fst (POST w req) = server_error_response w err (date_now_start w) (random_id w))"
    if ns: "status (fst (POST w req)) \<noteq> 200"
  proof (cases "POST_try w req (date_now_start w) (random_id w)")
    case (Pair x calls)
    show ?thesis
    proof (cases x)
      case (Inl err)
      then have "fst (POST w req) = server_error_response w err (date_now_start w) (random_id w)"
        using Pair by (simp add: POST_def Let_def)
      then show ?thesis by blast
    next
      case (Inr r)
      then have r: "fst (POST w req) = r" using Pair by (simp add: POST_def Let_def)
      have "POST_try w req (date_now_start w) (random_id w) = (Inr r, calls)"
        using Pair Inr by simp
      from POST_try_responses[OF this] ns r show ?thesis by auto
    qed
  qed
  show ?thesis using a b c by blast
qed

text \<open>The theorem at the two fallback tiers and at a body without \<open>videoUrl\<close>.\<close>

theorem POST_status_codes_witness:
  "accepted example_world example_body (JStr (js ''v/abcdefghijk'')) (js ''abcdefghijk'') (js ''sk'') \<and>
   summarization_throws example_world (js ''sk'') (js ''abcdefghijk'') 200 (js ''hello'') None
     example_error \<and>
   status (fst (POST example_world (Inr example_body))) = 200 \<and>
   transcript_fetch_fails failing_world (js ''sk'') (js ''abcdefghijk'') 500 (Inl example_error) None \<and>
   status (fst (POST failing_world (Inr example_body))) = 200 \<and>
   \<not> success (body (fst (POST failing_world (Inr example_body)))) \<and>
   status (fst (POST example_world (Inr (JObj [])))) = 400 \<and>
   fst (POST example_world (Inr (JObj []))) = missing_videoUrl_response"
proof -
  have s: "summarization_throws example_world (js ''sk'') (js ''abcdefghijk'') 200 (js ''hello'') None
     example_error"
    by (simp add: summarization_throws_def example_world_def response_ok_def)
  have f: "transcript_fetch_fails failing_world (js ''sk'') (js ''abcdefghijk'') 500
             (Inl example_error) None"
    by (simp add: transcript_fetch_fails_def failing_world_def response_ok_def)
  have r1: "status (fst (POST example_world (Inr example_body))) = 200"
    using POST_status_codes[of example_world example_body "JStr (js ''v/abcdefghijk'')"
        "js ''abcdefghijk''" "js ''sk''" 200 "js ''hello''" None example_error]
      example_accepted s by blast
  have r2: "status (fst (POST failing_world (Inr example_body))) = 200 \<and>
   \<not> success (body (fst (POST failing_world (Inr example_body))))"
    using POST_status_codes[of failing_world example_body "JStr (js ''v/abcdefghijk'')"
        "js ''abcdefghijk''" "js ''sk''" _ _ _ _ 500 "Inl example_error" None]
      failing_accepted f by blast
  have p: "fst (POST example_world (Inr (JObj []))) = missing_videoUrl_response"
    by (simp add: POST_def POST_try_def destructure_videoUrl_def get_property_def Let_def)
  have st: "status missing_videoUrl_response = 400"
    by (simp add: missing_videoUrl_response_def NextResponse_json_def)
  have r3: "status (fst (POST example_world (Inr (JObj [])))) = 400" using p st by simp
  show ?thesis using example_accepted s f r1 r2 r3 p by blast
qed

subsection \<open>Missing parameter\<close>

text \<open>
  Claim C10, as amended. For every request whose JSON body is a value other than
  \<open>null\<close> that has no \<open>videoUrl\<close> property, or a falsy one, the handler answers with
  status 400, \<open>success\<close> false and the message "Missing videoUrl parameter in request
  body", whatever the configuration is, and makes no outbound call.
\<close>

theorem POST_missing_videoUrl:
  assumes nn: "b \<noteq> JNull"
    and falsy: "\<forall>v. get_property b (js ''videoUrl'') = Some v \<longrightarrow> \<not> truthy v"
  shows "POST w (Inr b) = (missing_videoUrl_response, []) \<and>
         status (fst (POST w (Inr b))) = 400 \<and>
         \<not> success (body (fst (POST w (Inr b)))) \<and>
         error (body (fst (POST w (Inr b)))) =
           Some (ErrorText (js ''Missing videoUrl parameter in request body'')) \<and>
         snd (POST w (Inr b)) = []"
proof -
  have d: "destructure_videoUrl w b = Inr (get_property b (js ''videoUrl''))"
    using nn by (simp add: destructure_videoUrl_def)
  have "POST_try w (Inr b) (date_now_start w) (random_id w) = (Inr missing_videoUrl_response, [])"
    unfolding POST_try_def using d falsy by (auto split: option.splits)
  then have p: "POST w (Inr b) = (missing_videoUrl_response, [])"
    by (simp add: POST_def Let_def)
  show ?thesis by (simp add: p missing_videoUrl_response_def NextResponse_json_def obj_def)
qed

text \<open>The theorem at an empty \<open>videoUrl\<close> without any key configured, and at a body that is
  a number.\<close>

theorem POST_missing_videoUrl_witness:
  "JObj [(js ''videoUrl'', JStr [])] \<noteq> JNull \<and>
   get_property (JObj [(js ''videoUrl'', JStr [])]) (js ''videoUrl'') = Some (JStr []) \<and>
   \<not> truthy (JStr []) \<and>
   POST (example_world\<lparr>SUPADATA_API_KEY := None, GROQ_API_KEY := None\<rparr>)
     (Inr (JObj [(js ''videoUrl'', JStr [])])) = (missing_videoUrl_response, []) \<and>
   get_property (JNum 7) (js ''videoUrl'') = None \<and>
   POST example_world (Inr (JNum 7)) = (missing_videoUrl_response, [])"
proof -
  have g1: "get_property (JObj [(js ''videoUrl'', JStr [])]) (js ''videoUrl'') = Some (JStr [])"
    by (simp add: get_property_def)
  have f1: "\<forall>v. get_property (JObj [(js ''videoUrl'', JStr [])]) (js ''videoUrl'') = Some v
              \<longrightarrow> \<not> truthy v"
    by (simp add: g1)
  have g2: "get_property (JNum 7) (js ''videoUrl'') = None" by (simp add: get_property_def)
  have f2: "\<forall>v. get_property (JNum 7) (js ''videoUrl'') = Some v \<longrightarrow> \<not> truthy v"
    by (simp add: g2)
  have n1: "JObj [(js ''videoUrl'', JStr [])] \<noteq> JNull" and n2: "JNum 7 \<noteq> JNull" by simp_all
  show ?thesis
    using POST_missing_videoUrl[OF n1 f1, of "example_world\<lparr>SUPADATA_API_KEY := None, GROQ_API_KEY := None\<rparr>"]
      POST_missing_videoUrl[OF n2 f2, of example_world] g1 g2 by simp
qed

text \<open>
  Claim C10 as it was stated fails at the body \<open>null\<close>: it has no \<open>videoUrl\<close> property,
  the destructuring throws, and the outer \<open>catch\<close> answers with status 500.
\<close>

theorem POST_null_body:
  "get_property JNull (js ''videoUrl'') = None \<and>
   status (fst (POST example_world (Inr JNull))) = 500 \<and>
   status (fst (POST example_world (Inr JNull))) \<noteq> 400 \<and>
   error (body (fst (POST example_world (Inr JNull)))) =
     Some (ErrorText (js ''Server error: '' @
                      js ''Cannot destructure property videoUrl of body as it is null.''))"
  by (simp add: get_property_def POST_def POST_try_def destructure_videoUrl_def Let_def
      server_error_response_def NextResponse_json_def obj_def example_world_def)

end
